theory Spec2Isabelle
  imports Complex_Main "HOL-Library.Word"
begin

section \<open>GPU buffers and \<open>queue.writeBuffer\<close>\<close>

text \<open>
  A GPU buffer is its bytes; \<open>device.createBuffer\<close> returns them zeroed. A typed
  array (\<open>Float32Array\<close>) is a view on an \<open>ArrayBuffer\<close>: the bytes of the
  underlying buffer, the view's offset into them and its length in bytes.
\<close>

type_synonym byte = "8 word"
type_synonym GPUBuffer = "byte list"

record TypedArray =
  buffer :: "byte list"
  byteOffset :: nat
  byteLength :: nat

definition createBuffer :: "nat \<Rightarrow> GPUBuffer" where
  "createBuffer nbytes = replicate nbytes 0"

text \<open>
  \<open>queue.writeBuffer(buffer, bufferOffset, data, dataOffset, size)\<close> with an
  \<open>ArrayBuffer\<close> as data counts \<open>dataOffset\<close> and \<open>size\<close> in bytes. It throws
  an \<open>OperationError\<close> when the source range leaves the data. A destination that is
  misaligned or leaves the buffer is a validation error: the device reports it and the
  buffer keeps its contents. Otherwise the bytes \<open>bufferOffset ..< bufferOffset + size\<close>
  of the buffer are replaced.
\<close>

datatype exn = OperationError

definition writeBuffer ::
  "GPUBuffer \<Rightarrow> nat \<Rightarrow> byte list \<Rightarrow> nat \<Rightarrow> nat \<Rightarrow> exn + GPUBuffer" where
  "writeBuffer buf bufferOffset data dataOffset nbytes =
     (if length data < dataOffset + nbytes then Inl OperationError
      else if bufferOffset mod 4 \<noteq> 0 \<or> nbytes mod 4 \<noteq> 0 \<or> length buf < bufferOffset + nbytes
      then Inr buf
      else Inr (take bufferOffset buf @ take nbytes (drop dataOffset data)
                 @ drop (bufferOffset + nbytes) buf))"

text \<open>A buffer binding of a bind group: the bytes \<open>offset ..< offset + size\<close> of
  the bound buffer are what the shader sees.\<close>

record BufferBinding =
  binding_offset :: nat
  binding_size :: nat

definition bound_range :: "BufferBinding \<Rightarrow> nat set" where
  "bound_range b = {binding_offset b ..< binding_offset b + binding_size b}"

definition bound_bytes :: "BufferBinding \<Rightarrow> GPUBuffer \<Rightarrow> byte list" where
  "bound_bytes b buf = take (binding_size b) (drop (binding_offset b) buf)"

section \<open>The two-cubes demo: one uniform buffer, two bindings\<close>

definition two_cubes_matrixSize :: nat where
  "two_cubes_matrixSize = 4 * 16"

definition two_cubes_offset :: nat where
  "two_cubes_offset = 256"

definition two_cubes_uniformBufferSize :: nat where
  "two_cubes_uniformBufferSize = two_cubes_offset + two_cubes_matrixSize"

definition two_cubes_uniformBuffer :: GPUBuffer where
  "two_cubes_uniformBuffer = createBuffer two_cubes_uniformBufferSize"

definition two_cubes_uniformBindGroup :: BufferBinding where
  "two_cubes_uniformBindGroup =
     \<lparr> binding_offset = 0, binding_size = two_cubes_matrixSize \<rparr>"

definition two_cubes_uniformBindGroup2 :: BufferBinding where
  "two_cubes_uniformBindGroup2 =
     \<lparr> binding_offset = two_cubes_offset, binding_size = two_cubes_matrixSize \<rparr>"

text \<open>
  The matrices come from \<open>mat4.create()\<close> of gl-matrix, a \<open>Float32Array\<close> of 16
  elements on a buffer of its own: 64 bytes, viewed from offset 0.
\<close>

definition is_mat4 :: "TypedArray \<Rightarrow> bool" where
  "is_mat4 m = (length (buffer m) = 64 \<and> byteOffset m = 0 \<and> byteLength m = 64)"

text \<open>The two \<open>writeBuffer\<close> calls of \<open>frame\<close>, in the order of the source.\<close>

definition two_cubes_write1 :: "GPUBuffer \<Rightarrow> TypedArray \<Rightarrow> exn + GPUBuffer" where
  "two_cubes_write1 uniformBuffer transformationMatrix =
     writeBuffer uniformBuffer 0 (buffer transformationMatrix)
       (byteOffset transformationMatrix) (byteLength transformationMatrix)"

definition two_cubes_write2 :: "GPUBuffer \<Rightarrow> TypedArray \<Rightarrow> exn + GPUBuffer" where
  "two_cubes_write2 uniformBuffer transformationMatrix2 =
     writeBuffer uniformBuffer two_cubes_offset (buffer transformationMatrix2)
       (byteOffset transformationMatrix2) (byteLength transformationMatrix2)"

definition two_cubes_frame_writes ::
  "GPUBuffer \<Rightarrow> TypedArray \<Rightarrow> TypedArray \<Rightarrow> exn + GPUBuffer" where
  "two_cubes_frame_writes uniformBuffer transformationMatrix transformationMatrix2 =
     (case two_cubes_write1 uniformBuffer transformationMatrix of
        Inl e \<Rightarrow> Inl e
      | Inr b \<Rightarrow> two_cubes_write2 b transformationMatrix2)"

section \<open>The browser and the GPU as a trace of calls\<close>

text \<open>
  Each demo is a script that calls the browser and the GPU in a fixed order. The model
  records, in order, the calls that create, destroy or write a GPU object, the commands
  put into an encoder, and the submissions to the queue. Objects are named by the
  variable that holds them in the source. Reads that create nothing
  (\<open>getContext\<close>, \<open>getPreferredCanvasFormat\<close>, \<open>getBindGroupLayout\<close>,
  \<open>getCurrentTexture\<close>, \<open>getMappedRange\<close>, \<open>unmap\<close>), the matrix arithmetic
  and the drawing on the 2D canvas are not recorded. The calls of a function are
  recorded in program order; where a function waits at an \<open>await\<close> for something
  that may fail or that others do not wait for, the model says so below.
\<close>

datatype call =
    RequestAdapter
  | RequestDevice
  | Configure
  | CreateShaderModule string
  | CreateRenderPipeline string
  | CreateComputePipeline string
  | CreateBindGroupLayout string
  | CreatePipelineLayout "string list"
  | CreateBuffer string
  | CreateTexture string
  | CreateView string
  | CreateSampler
  | CreateBindGroup string
  | DestroyTexture string
  | WriteBuffer string nat
  | CopyExternalImageToTexture string
  | CreateCommandEncoder
  | BeginRenderPass string
  | BeginComputePass
  | SetPipeline string
  | SetBindGroup nat string
  | SetVertexBuffer nat string
  | SetIndexBuffer string
  | Draw nat nat nat nat
  | DrawIndexed nat nat nat nat nat
  | DispatchWorkgroups nat
  | EndPass
  | Finish
  | Submit nat

text \<open>
  The arguments of \<open>Draw\<close> are \<open>vertexCount\<close>, \<open>instanceCount\<close>,
  \<open>firstVertex\<close>, \<open>firstInstance\<close>; those of \<open>DrawIndexed\<close> are
  \<open>indexCount\<close>, \<open>instanceCount\<close>, \<open>firstIndex\<close>, \<open>baseVertex\<close>,
  \<open>firstInstance\<close>; an argument the source leaves out has the default of the API
  (one instance, zero elsewhere). \<open>Submit n\<close> submits \<open>n\<close> command buffers.

  The meshes come from the modules \<open>meshes/cube\<close>, \<open>util/box\<close>,
  \<open>util/sphere\<close> and \<open>meshes/stanfordDragon\<close>; the counts that the demos read
  from them are parameters.
\<close>

record meshes =
  cubeVertexCount :: nat
  box_indexCount :: nat
  sphere_indexCount :: nat
  mesh_triangles_length :: nat

text \<open>The demos, one for each script of the sources.\<close>

datatype demo =
    Cube
  | Multisample
  | ShadowMapping
  | BaseLighting
  | CanvasTexture
  | BaseLighting2
  | TwoCubes
  | ImageTexture
  | Deferred
  | SpriteTexture
  | ColorTriangle
  | InstancedCubes

text \<open>
  The closures \<open>frame\<close> that the demos hand to \<open>requestAnimationFrame\<close>. The one of
  the sprite demo carries the variable \<open>count\<close> of its enclosing \<open>draw\<close>.
\<close>

datatype callback =
    CubeFrame
  | ShadowMappingFrame
  | BaseLightingFrame
  | CanvasTextureFrame
  | BaseLighting2Frame
  | TwoCubesFrame
  | ImageTextureFrame
  | DeferredFrame
  | SpriteTextureFrame nat
  | InstancedFrame

text \<open>
  The handlers that the demos register and that call the GPU when they run: the
  listener of the window's \<open>resize\<close> event of each demo, the listener of the colour
  input of the triangle, and the \<open>onChange\<close> of the GUI's \<open>numLights\<close> slider.
  Listeners that only change variables of the script (the sliders of base_lighting2,
  the pointer events of the 2D canvas) are not recorded.
\<close>

datatype handler =
    Resize demo
  | ColorInput
  | NumLightsChange

text \<open>
  An \<open>async\<close> function that nobody awaits runs up to its first \<open>await\<close> and is
  then suspended, while its caller goes on. The one such function that calls the GPU
  after its \<open>await\<close> is \<open>draw\<close> of the image-texture demo, which awaits the load
  of its image.
\<close>

datatype task = ImageTextureDraw

text \<open>
  The state of the page: the calls made so far, the callbacks waiting for the next
  animation frame, the handlers registered, the suspended functions in the order of
  their suspension, and \<open>settings.mode\<close> of the deferred-rendering demo, which the
  GUI sets to \<open>rendering\<close> or \<open>gBuffers view\<close>.
\<close>

record world =
  calls :: "call list"
  rafQueue :: "callback list"
  listeners :: "handler list"
  suspended :: "task list"
  settings_mode :: string

definition initial_world :: world where
  "initial_world =
     \<lparr> calls = [], rafQueue = [], listeners = [], suspended = [],
       settings_mode = ''rendering'' \<rparr>"

definition suspend :: "task \<Rightarrow> world \<Rightarrow> world" where
  "suspend t w = w\<lparr> suspended := suspended w @ [t] \<rparr>"

definition addEventListener :: "handler \<Rightarrow> world \<Rightarrow> world" where
  "addEventListener h w = w\<lparr> listeners := listeners w @ [h] \<rparr>"

definition gui_select_mode :: "string \<Rightarrow> world \<Rightarrow> world" where
  "gui_select_mode m w = w\<lparr> settings_mode := m \<rparr>"

definition gpu :: "call list \<Rightarrow> world \<Rightarrow> world" where
  "gpu cs w = w\<lparr> calls := calls w @ cs \<rparr>"

definition requestAnimationFrame :: "callback \<Rightarrow> world \<Rightarrow> world" where
  "requestAnimationFrame cb w = w\<lparr> rafQueue := rafQueue w @ [cb] \<rparr>"

text \<open>
  What the page, the browser and the network provide while a demo starts: the elements
  of the page, \<open>navigator.gpu\<close>, an adapter, and the outcome of each promise of
  the browser that \<open>run\<close> awaits: whether \<open>requestDevice\<close> resolves, whether
  \<open>createRenderPipelineAsync\<close> resolves for the pipeline held by a given variable,
  and whether the image that the sprite demo loads in \<open>createResources\<close> arrives
  (\<open>fetch\<close>, \<open>res.blob\<close> and \<open>createImageBitmap\<close> all resolve). The calls
  that return at once are taken to be accepted by the browser: their arguments are
  fixed by the sources.
\<close>

record env =
  has_canvas :: bool
  has_canvas2 :: bool
  has_2d :: bool
  has_color_input :: bool
  has_gpu :: bool
  has_adapter :: bool
  device_resolves :: bool
  pipeline_resolves :: "string \<Rightarrow> bool"
  image_loads :: bool

text \<open>An error is one the script throws with \<open>new Error\<close>, or the rejection of a
  promise that it awaits: of \<open>requestDevice\<close>, of \<open>createRenderPipelineAsync\<close>
  for a pipeline, or of the image load.\<close>

datatype error =
    Error string
  | RequestDeviceRejected
  | CreatePipelineRejected string
  | ImageLoadRejected

text \<open>
  A function that can throw returns \<open>Inl\<close> of the error and of the state of the page
  at the throw, or \<open>Inr\<close> of the state it leaves. \<open>run\<close> and the functions it
  awaits are modelled in one piece: while \<open>run\<close> waits, no callback and no GPU
  handler is registered yet that could run in between.
\<close>

type_synonym outcome = "(error \<times> world) + world"

text \<open>\<open>await\<close> of a function that can fail: the caller goes on with the state the
  function leaves, or fails with it.\<close>

definition await :: "outcome \<Rightarrow> (world \<Rightarrow> outcome) \<Rightarrow> outcome" where
  "await r k = (case r of Inl thrown \<Rightarrow> Inl thrown | Inr w \<Rightarrow> k w)"

text \<open>\<open>await device.createRenderPipelineAsync(descriptor)\<close>, for the pipeline that
  the variable \<open>p\<close> is to hold: the pipeline exists once the promise has resolved.\<close>

definition createRenderPipelineAsync :: "string \<Rightarrow> env \<Rightarrow> world \<Rightarrow> outcome" where
  "createRenderPipelineAsync p e w =
     (if pipeline_resolves e p then Inr (gpu [CreateRenderPipeline p] w)
      else Inl (CreatePipelineRejected p, w))"

subsection \<open>\<open>initWebGPU\<close>\<close>

text \<open>
  The function is the same in every demo, up to the text of its first error, which is
  its first parameter here.
\<close>

definition initWebGPU :: "string \<Rightarrow> env \<Rightarrow> world \<Rightarrow> outcome" where
  "initWebGPU notSupported e w =
     (if \<not> has_gpu e then Inl (Error notSupported, w)
      else
        let w1 = gpu [RequestAdapter] w in
        if \<not> has_adapter e then Inl (Error ''No Adapter Found'', w1)
        else
          let w2 = gpu [RequestDevice] w1 in
          if \<not> device_resolves e then Inl (RequestDeviceRejected, w2)
          else Inr (gpu [Configure] w2))"

subsection \<open>The rotating cube (cube.ts)\<close>

definition cube_initPipeline :: "env \<Rightarrow> world \<Rightarrow> outcome" where
  "cube_initPipeline e w =
     createRenderPipelineAsync ''pipeline'' e
       (gpu [CreateShaderModule ''cubeVert'', CreateShaderModule ''cubFrag''] w)"

definition cube_frame :: "meshes \<Rightarrow> world \<Rightarrow> world" where
  "cube_frame M w =
     requestAnimationFrame CubeFrame
       (gpu [WriteBuffer ''uniformBuffer'' 0,
             CreateView ''currentTexture'',
             CreateCommandEncoder,
             BeginRenderPass ''renderPassDescriptor'',
             SetPipeline ''pipeline'',
             SetBindGroup 0 ''uniformBindGroup'',
             SetVertexBuffer 0 ''cubeVerticesBuffer'',
             Draw (cubeVertexCount M) 1 0 0,
             EndPass,
             Finish,
             Submit 1] w)"

definition cube_draw :: "meshes \<Rightarrow> world \<Rightarrow> world" where
  "cube_draw M w =
     requestAnimationFrame CubeFrame
       (gpu [CreateBuffer ''cubeVerticesBuffer'',
             CreateTexture ''depthTexture'',
             CreateBuffer ''uniformBuffer'',
             CreateBindGroup ''uniformBindGroup'',
             CreateView ''currentTexture'',
             CreateView ''depthTexture''] w)"

definition cube_onResize :: "meshes \<Rightarrow> world \<Rightarrow> world" where
  "cube_onResize M w = cube_draw M (gpu [Configure] w)"

definition cube_run :: "meshes \<Rightarrow> env \<Rightarrow> world \<Rightarrow> outcome" where
  "cube_run M e w =
     (if \<not> has_canvas e then Inl (Error ''No Canvas'', w)
      else
        await (initWebGPU ''Not Support WebGPU'' e w)
          (\<lambda>w1. await (cube_initPipeline e w1)
             (\<lambda>w2. Inr (addEventListener (Resize Cube) (cube_draw M w2)))))"

subsection \<open>The multisampled triangle\<close>

definition multisample_initPipeline :: "env \<Rightarrow> world \<Rightarrow> outcome" where
  "multisample_initPipeline e w =
     createRenderPipelineAsync ''pipeline'' e
       (gpu [CreateShaderModule ''triangle'', CreateShaderModule ''redFrag''] w)"

definition multisample_draw :: "world \<Rightarrow> world" where
  "multisample_draw w =
     gpu [CreateCommandEncoder,
          CreateTexture ''texture'',
          CreateView ''texture'',
          CreateView ''currentTexture'',
          BeginRenderPass ''renderPassDescriptor'',
          SetPipeline ''pipeline'',
          Draw 3 1 0 0,
          EndPass,
          Finish,
          Submit 1] w"

definition multisample_onResize :: "world \<Rightarrow> world" where
  "multisample_onResize w = multisample_draw (gpu [Configure] w)"

definition multisample_run :: "env \<Rightarrow> world \<Rightarrow> outcome" where
  "multisample_run e w =
     (if \<not> has_canvas e then Inl (Error ''No Canvas'', w)
      else
        await (initWebGPU ''Not Support WebGpu'' e w)
          (\<lambda>w1. await (multisample_initPipeline e w1)
             (\<lambda>w2. Inr (addEventListener (Resize Multisample) (multisample_draw w2)))))"

subsection \<open>Shadow mapping\<close>

definition shadowMapping_NUM :: nat where
  "shadowMapping_NUM = 30"

definition shadowMapping_initPipeline :: "env \<Rightarrow> world \<Rightarrow> outcome" where
  "shadowMapping_initPipeline e w =
     await (createRenderPipelineAsync ''shadowPipeline'' e
              (gpu [CreateShaderModule ''shadowDepth''] w))
       (\<lambda>w1. createRenderPipelineAsync ''renderPipeline'' e
               (gpu [CreateShaderModule ''shadowVertex'',
                     CreateShaderModule ''shadowFrag''] w1))"

definition shadowMapping_createResources :: "world \<Rightarrow> world" where
  "shadowMapping_createResources w =
     gpu [CreateBuffer ''boxBuffer.vertex'',
          CreateBuffer ''boxBuffer.index'',
          CreateBuffer ''sphereBuffer.vertex'',
          CreateBuffer ''sphereBuffer.index'',
          WriteBuffer ''boxBuffer.vertex'' 0,
          WriteBuffer ''boxBuffer.index'' 0,
          WriteBuffer ''sphereBuffer.vertex'' 0,
          WriteBuffer ''sphereBuffer.index'' 0,
          CreateTexture ''shadowDepthTexture'',
          CreateTexture ''renderDepthTexture'',
          CreateView ''shadowDepthTexture'',
          CreateView ''renderDepthTexture'',
          CreateBuffer ''modelViewBuffer'',
          CreateBuffer ''cameraProjectionBuffer'',
          CreateBuffer ''lightProjectionBuffer'',
          CreateBuffer ''colorBuffer'',
          CreateBuffer ''lightBuffer'',
          CreateBindGroup ''vsGroup'',
          CreateSampler,
          CreateBindGroup ''fsGroup'',
          CreateBindGroup ''shadowGroup''] w"

definition shadowMapping_frame :: "meshes \<Rightarrow> world \<Rightarrow> world" where
  "shadowMapping_frame M w =
     requestAnimationFrame ShadowMappingFrame
       (gpu [WriteBuffer ''lightProjectionBuffer'' 0,
             WriteBuffer ''lightBuffer'' 0,
             WriteBuffer ''modelViewBuffer'' 0,
             CreateCommandEncoder,
             BeginRenderPass ''shadowPassDescriptor'',
             SetPipeline ''shadowPipeline'',
             SetBindGroup 0 ''shadowGroup'',
             SetVertexBuffer 0 ''boxBuffer.vertex'',
             SetIndexBuffer ''boxBuffer.index'',
             DrawIndexed (box_indexCount M) 2 0 0 0,
             SetVertexBuffer 0 ''sphereBuffer.vertex'',
             SetIndexBuffer ''sphereBuffer.index'',
             DrawIndexed (sphere_indexCount M) (shadowMapping_NUM - 2) 0 0
               (shadowMapping_NUM div 2),
             EndPass,
             CreateView ''currentTexture'',
             BeginRenderPass ''renderPassDescriptor'',
             SetPipeline ''renderPipeline'',
             SetBindGroup 0 ''vsGroup'',
             SetBindGroup 1 ''fsGroup'',
             SetVertexBuffer 0 ''boxBuffer.vertex'',
             SetIndexBuffer ''boxBuffer.index'',
             DrawIndexed (box_indexCount M) 2 0 0 0,
             SetVertexBuffer 0 ''sphereBuffer.vertex'',
             SetIndexBuffer ''sphereBuffer.index'',
             DrawIndexed (sphere_indexCount M) (shadowMapping_NUM - 2) 0 0
               (shadowMapping_NUM div 2),
             EndPass,
             Finish,
             Submit 1] w)"

definition shadowMapping_draw :: "world \<Rightarrow> world" where
  "shadowMapping_draw w =
     requestAnimationFrame ShadowMappingFrame (gpu [WriteBuffer ''colorBuffer'' 0] w)"

definition shadowMapping_updateCamera :: "world \<Rightarrow> world" where
  "shadowMapping_updateCamera w = gpu [WriteBuffer ''cameraProjectionBuffer'' 0] w"

definition shadowMapping_onResize :: "world \<Rightarrow> world" where
  "shadowMapping_onResize w =
     shadowMapping_updateCamera
       (shadowMapping_draw
          (gpu [DestroyTexture ''renderDepthTexture'',
                CreateTexture ''renderDepthTexture'',
                CreateView ''renderDepthTexture''] w))"

definition shadowMapping_run :: "env \<Rightarrow> world \<Rightarrow> outcome" where
  "shadowMapping_run e w =
     (if \<not> has_canvas e then Inl (Error ''No Canvas'', w)
      else
        await (initWebGPU ''Not Support WebGPU'' e w)
          (\<lambda>w1. await (shadowMapping_initPipeline e w1)
             (\<lambda>w2. Inr (addEventListener (Resize ShadowMapping)
                          (shadowMapping_updateCamera
                             (shadowMapping_draw (shadowMapping_createResources w2)))))))"

subsection \<open>Basic lighting (base_lighting.ts)\<close>

text \<open>\<open>NUM / 2\<close> is exact for the even \<open>NUM\<close> of the sources.\<close>

definition base_lighting_NUM :: nat where
  "base_lighting_NUM = 500"

definition base_lighting_initPipeline :: "env \<Rightarrow> world \<Rightarrow> outcome" where
  "base_lighting_initPipeline e w =
     createRenderPipelineAsync ''pipeline'' e
       (gpu [CreateShaderModule ''objVert'', CreateShaderModule ''objFrag''] w)"

definition base_lighting_createResources :: "world \<Rightarrow> world" where
  "base_lighting_createResources w =
     gpu [CreateTexture ''depthTexture'',
          CreateBuffer ''boxBuffer.vertex'',
          CreateBuffer ''boxBuffer.index'',
          CreateBuffer ''sphereBuffer.vertex'',
          CreateBuffer ''sphereBuffer.index'',
          WriteBuffer ''boxBuffer.vertex'' 0,
          WriteBuffer ''boxBuffer.index'' 0,
          WriteBuffer ''sphereBuffer.vertex'' 0,
          WriteBuffer ''sphereBuffer.index'' 0,
          CreateBuffer ''modelViewBuffer'',
          CreateBuffer ''projectionBuffer'',
          CreateBuffer ''colorBuffer'',
          CreateBindGroup ''vsGroup''] w"

definition base_lighting_frame :: "meshes \<Rightarrow> world \<Rightarrow> world" where
  "base_lighting_frame M w =
     requestAnimationFrame BaseLightingFrame
       (gpu [CreateView ''currentTexture'',
             CreateCommandEncoder,
             BeginRenderPass ''renderPassDescriptor'',
             SetPipeline ''pipeline'',
             SetBindGroup 0 ''vsGroup'',
             SetVertexBuffer 0 ''boxBuffer.vertex'',
             SetIndexBuffer ''boxBuffer.index'',
             DrawIndexed (box_indexCount M) (base_lighting_NUM div 2) 0 0 0,
             SetVertexBuffer 0 ''sphereBuffer.vertex'',
             SetIndexBuffer ''sphereBuffer.index'',
             DrawIndexed (sphere_indexCount M) (base_lighting_NUM div 2) 0 0
               (base_lighting_NUM div 2),
             EndPass,
             Finish,
             Submit 1] w)"

definition base_lighting_draw :: "world \<Rightarrow> world" where
  "base_lighting_draw w =
     requestAnimationFrame BaseLightingFrame
       (gpu [CreateView ''currentTexture'',
             CreateView ''depthTexture'',
             WriteBuffer ''colorBuffer'' 0,
             WriteBuffer ''modelViewBuffer'' 0] w)"

definition base_lighting_updateCamera :: "world \<Rightarrow> world" where
  "base_lighting_updateCamera w = gpu [WriteBuffer ''projectionBuffer'' 0] w"

definition base_lighting_onResize :: "world \<Rightarrow> world" where
  "base_lighting_onResize w =
     base_lighting_updateCamera (base_lighting_draw (gpu [Configure] w))"

definition base_lighting_run :: "env \<Rightarrow> world \<Rightarrow> outcome" where
  "base_lighting_run e w =
     (if \<not> has_canvas e then Inl (Error ''No Canvas'', w)
      else
        await (initWebGPU ''Not Support WebGPU'' e w)
          (\<lambda>w1. await (base_lighting_initPipeline e w1)
             (\<lambda>w2. Inr (addEventListener (Resize BaseLighting)
                          (base_lighting_updateCamera
                             (base_lighting_draw (base_lighting_createResources w2)))))))"

subsection \<open>The cube textured from a 2D canvas (cube_canvasTexture.ts)\<close>

definition canvasTexture_initPipeline :: "env \<Rightarrow> world \<Rightarrow> outcome" where
  "canvasTexture_initPipeline e w =
     createRenderPipelineAsync ''pipeline'' e
       (gpu [CreateShaderModule ''cubeVert'', CreateShaderModule ''cubFrag''] w)"

definition canvasTexture_createResources :: "world \<Rightarrow> world" where
  "canvasTexture_createResources w =
     gpu [CreateBuffer ''verticesBuffer'',
          CreateTexture ''depthTexture'',
          CreateBuffer ''uniformBuffer'',
          CreateBindGroup ''uniformGroup'',
          CreateTexture ''cavasTexture'',
          CreateSampler,
          CreateView ''cavasTexture'',
          CreateBindGroup ''textureGroup''] w"

definition canvasTexture_frame :: "meshes \<Rightarrow> world \<Rightarrow> world" where
  "canvasTexture_frame M w =
     requestAnimationFrame CanvasTextureFrame
       (gpu [WriteBuffer ''uniformBuffer'' 0,
             CopyExternalImageToTexture ''cavasTexture'',
             CreateView ''currentTexture'',
             CreateCommandEncoder,
             BeginRenderPass ''renderPassDescriptor'',
             SetPipeline ''pipeline'',
             SetBindGroup 0 ''uniformGroup'',
             SetBindGroup 1 ''textureGroup'',
             SetVertexBuffer 0 ''verticesBuffer'',
             Draw (cubeVertexCount M) 1 0 0,
             EndPass,
             Finish,
             Submit 1] w)"

text \<open>This \<open>draw\<close> ends with the call \<open>frame()\<close>: the first frame is drawn at once.\<close>

definition canvasTexture_draw :: "meshes \<Rightarrow> world \<Rightarrow> world" where
  "canvasTexture_draw M w =
     canvasTexture_frame M
       (gpu [CreateView ''currentTexture'', CreateView ''depthTexture''] w)"

definition canvasTexture_onResize :: "meshes \<Rightarrow> world \<Rightarrow> world" where
  "canvasTexture_onResize M w = canvasTexture_draw M (gpu [Configure] w)"

definition canvasTexture_run :: "meshes \<Rightarrow> env \<Rightarrow> world \<Rightarrow> outcome" where
  "canvasTexture_run M e w =
     (if \<not> has_canvas e \<or> \<not> has_canvas2 e then Inl (Error ''No Canvas'', w)
      else if \<not> has_2d e then Inl (Error ''No support 2d'', w)
      else
        await (initWebGPU ''Not Support WebGPU'' e w)
          (\<lambda>w1. await (canvasTexture_initPipeline e w1)
             (\<lambda>w2. Inr (addEventListener (Resize CanvasTexture)
                          (canvasTexture_draw M (canvasTexture_createResources w2))))))"

subsection \<open>Lighting with a point light (base_lighting2)\<close>

definition base_lighting2_NUM :: nat where
  "base_lighting2_NUM = 500"

definition base_lighting2_initPipeline :: "env \<Rightarrow> world \<Rightarrow> outcome" where
  "base_lighting2_initPipeline e w =
     createRenderPipelineAsync ''pipeline'' e
       (gpu [CreateShaderModule ''objVert'', CreateShaderModule ''objFrag''] w)"

definition base_lighting2_createResources :: "world \<Rightarrow> world" where
  "base_lighting2_createResources w =
     gpu [CreateTexture ''depthTexture'',
          CreateBuffer ''boxBuffer.vertex'',
          CreateBuffer ''boxBuffer.index'',
          CreateBuffer ''sphereBuffer.vertex'',
          CreateBuffer ''sphereBuffer.index'',
          WriteBuffer ''boxBuffer.vertex'' 0,
          WriteBuffer ''boxBuffer.index'' 0,
          WriteBuffer ''sphereBuffer.vertex'' 0,
          WriteBuffer ''sphereBuffer.index'' 0,
          CreateBuffer ''modelViewBuffer'',
          CreateBuffer ''projectionBuffer'',
          CreateBuffer ''colorBuffer'',
          CreateBindGroup ''vsGroup'',
          CreateBuffer ''ambientBuffer'',
          CreateBuffer ''pointLightBuffer'',
          CreateBindGroup ''lightGroup''] w"

definition base_lighting2_frame :: "meshes \<Rightarrow> world \<Rightarrow> world" where
  "base_lighting2_frame M w =
     requestAnimationFrame BaseLighting2Frame
       (gpu [WriteBuffer ''ambientBuffer'' 0,
             WriteBuffer ''pointLightBuffer'' 0,
             WriteBuffer ''colorBuffer'' 0,
             WriteBuffer ''modelViewBuffer'' 0,
             CreateView ''currentTexture'',
             CreateCommandEncoder,
             BeginRenderPass ''renderPassDescriptor'',
             SetPipeline ''pipeline'',
             SetBindGroup 0 ''vsGroup'',
             SetBindGroup 1 ''lightGroup'',
             SetVertexBuffer 0 ''boxBuffer.vertex'',
             SetIndexBuffer ''boxBuffer.index'',
             DrawIndexed (box_indexCount M) (base_lighting2_NUM div 2) 0 0 0,
             SetVertexBuffer 0 ''sphereBuffer.vertex'',
             SetIndexBuffer ''sphereBuffer.index'',
             DrawIndexed (sphere_indexCount M) (base_lighting2_NUM div 2) 0 0
               (base_lighting2_NUM div 2),
             EndPass,
             Finish,
             Submit 1] w)"

definition base_lighting2_draw :: "world \<Rightarrow> world" where
  "base_lighting2_draw w =
     requestAnimationFrame BaseLighting2Frame
       (gpu [CreateView ''currentTexture'', CreateView ''depthTexture''] w)"

definition base_lighting2_updateCamera :: "world \<Rightarrow> world" where
  "base_lighting2_updateCamera w = gpu [WriteBuffer ''projectionBuffer'' 0] w"

definition base_lighting2_onResize :: "world \<Rightarrow> world" where
  "base_lighting2_onResize w =
     base_lighting2_updateCamera (base_lighting2_draw (gpu [Configure] w))"

definition base_lighting2_run :: "env \<Rightarrow> world \<Rightarrow> outcome" where
  "base_lighting2_run e w =
     (if \<not> has_canvas e then Inl (Error ''No Canvas'', w)
      else
        await (initWebGPU ''Not Support WebGPU'' e w)
          (\<lambda>w1. await (base_lighting2_initPipeline e w1)
             (\<lambda>w2. Inr (addEventListener (Resize BaseLighting2)
                          (base_lighting2_updateCamera
                             (base_lighting2_draw (base_lighting2_createResources w2)))))))"

subsection \<open>Two cubes\<close>

definition two_cubes_initPipeline :: "env \<Rightarrow> world \<Rightarrow> outcome" where
  "two_cubes_initPipeline e w =
     createRenderPipelineAsync ''pipeline'' e
       (gpu [CreateShaderModule ''cubeVert'', CreateShaderModule ''cubFrag''] w)"

definition two_cubes_frame :: "meshes \<Rightarrow> world \<Rightarrow> world" where
  "two_cubes_frame M w =
     requestAnimationFrame TwoCubesFrame
       (gpu [WriteBuffer ''uniformBuffer'' 0,
             WriteBuffer ''uniformBuffer'' two_cubes_offset,
             CreateView ''currentTexture'',
             CreateCommandEncoder,
             BeginRenderPass ''renderPassDescriptor'',
             SetPipeline ''pipeline'',
             SetVertexBuffer 0 ''cubeVerticesBuffer'',
             SetBindGroup 0 ''uniformBindGroup'',
             Draw (cubeVertexCount M) 1 0 0,
             SetBindGroup 0 ''uniformBindGroup2'',
             Draw (cubeVertexCount M) 1 0 0,
             EndPass,
             Finish,
             Submit 1] w)"

definition two_cubes_draw :: "world \<Rightarrow> world" where
  "two_cubes_draw w =
     requestAnimationFrame TwoCubesFrame
       (gpu [CreateBuffer ''cubeVerticesBuffer'',
             CreateTexture ''depthTexture'',
             CreateBuffer ''uniformBuffer'',
             CreateBindGroup ''uniformBindGroup'',
             CreateBindGroup ''uniformBindGroup2'',
             CreateView ''currentTexture'',
             CreateView ''depthTexture''] w)"

definition two_cubes_onResize :: "world \<Rightarrow> world" where
  "two_cubes_onResize w = two_cubes_draw (gpu [Configure] w)"

definition two_cubes_run :: "env \<Rightarrow> world \<Rightarrow> outcome" where
  "two_cubes_run e w =
     (if \<not> has_canvas e then Inl (Error ''No Canvas'', w)
      else
        await (initWebGPU ''Not Support WebGPU'' e w)
          (\<lambda>w1. await (two_cubes_initPipeline e w1)
             (\<lambda>w2. Inr (addEventListener (Resize TwoCubes) (two_cubes_draw w2)))))"

subsection \<open>The cube textured from an image (cube_imageTexture)\<close>

definition imageTexture_initPipeline :: "env \<Rightarrow> world \<Rightarrow> outcome" where
  "imageTexture_initPipeline e w =
     createRenderPipelineAsync ''pipeline'' e
       (gpu [CreateShaderModule ''cubeVert'', CreateShaderModule ''cubFrag''] w)"

definition imageTexture_frame :: "meshes \<Rightarrow> world \<Rightarrow> world" where
  "imageTexture_frame M w =
     requestAnimationFrame ImageTextureFrame
       (gpu [WriteBuffer ''uniformBuffer'' 0,
             CreateView ''currentTexture'',
             CreateCommandEncoder,
             BeginRenderPass ''renderPassDescriptor'',
             SetPipeline ''pipeline'',
             SetBindGroup 0 ''uniformBindGroup'',
             SetBindGroup 1 ''textureGroup'',
             SetVertexBuffer 0 ''cubeVerticesBuffer'',
             Draw (cubeVertexCount M) 1 0 0,
             EndPass,
             Finish,
             Submit 1] w)"

text \<open>
  \<open>draw\<close> is \<open>async\<close> and is called without \<open>await\<close>, by \<open>run\<close> and by the
  resize listener. \<open>imageTexture_draw\<close> is the call: the part of \<open>draw\<close> before
  \<open>await fetch(imageUrl)\<close>, after which \<open>draw\<close> is suspended.
  \<open>imageTexture_draw_loaded\<close> is the rest of \<open>draw\<close>, which runs when \<open>fetch\<close>,
  \<open>res.blob\<close> and \<open>createImageBitmap\<close> have resolved, and ends with the call
  \<open>frame()\<close>. When one of the three rejects, the rest of \<open>draw\<close> never runs.
\<close>

definition imageTexture_draw :: "world \<Rightarrow> world" where
  "imageTexture_draw w =
     suspend ImageTextureDraw
       (gpu [CreateBuffer ''cubeVerticesBuffer'',
             CreateTexture ''depthTexture'',
             CreateBuffer ''uniformBuffer'',
             CreateBindGroup ''uniformBindGroup'',
             CreateView ''currentTexture'',
             CreateView ''depthTexture''] w)"

definition imageTexture_draw_loaded :: "meshes \<Rightarrow> world \<Rightarrow> world" where
  "imageTexture_draw_loaded M w =
     imageTexture_frame M
       (gpu [CreateTexture ''texture'',
             CopyExternalImageToTexture ''texture'',
             CreateSampler,
             CreateView ''texture'',
             CreateBindGroup ''textureGroup''] w)"

definition imageTexture_onResize :: "world \<Rightarrow> world" where
  "imageTexture_onResize w = imageTexture_draw (gpu [Configure] w)"

definition imageTexture_run :: "env \<Rightarrow> world \<Rightarrow> outcome" where
  "imageTexture_run e w =
     (if \<not> has_canvas e then Inl (Error ''No Canvas'', w)
      else
        await (initWebGPU ''Not Support WebGPU'' e w)
          (\<lambda>w1. await (imageTexture_initPipeline e w1)
             (\<lambda>w2. Inr (addEventListener (Resize ImageTexture) (imageTexture_draw w2)))))"

subsection \<open>Deferred rendering\<close>

definition kMaxNumLights :: nat where
  "kMaxNumLights = 1024"

text \<open>\<open>Math.ceil(a / b)\<close> on non-negative whole numbers.\<close>

definition Math_ceil_div :: "nat \<Rightarrow> nat \<Rightarrow> nat" where
  "Math_ceil_div a b = nat \<lceil>real a / real b\<rceil>"

definition deferred_initPipeline :: "world \<Rightarrow> world" where
  "deferred_initPipeline w =
     gpu [CreateShaderModule ''vertexWriteGBuffers'',
          CreateShaderModule ''fragmentWriteGBuffers'',
          CreateRenderPipeline ''writeGBuffersPipeline'',
          CreateBindGroupLayout ''gBufferTextureBindGroupLayout'',
          CreateBindGroupLayout ''lightsBufferBindGroupLayout'',
          CreatePipelineLayout [''gBufferTextureBindGroupLayout''],
          CreateShaderModule ''vertexTextureQuad'',
          CreateShaderModule ''fragmentGBuffersDebugView'',
          CreateRenderPipeline ''gBuffersDebugViewPipeline'',
          CreatePipelineLayout
            [''gBufferTextureBindGroupLayout'', ''lightsBufferBindGroupLayout''],
          CreateShaderModule ''vertexTextureQuad'',
          CreateShaderModule ''fragmentDeferredRendering'',
          CreateRenderPipeline ''deferredRenderingPipeline'',
          CreateShaderModule ''lightupdate'',
          CreateComputePipeline ''lightUpdateComputePipeline''] w"

definition deferred_createResources :: "world \<Rightarrow> world" where
  "deferred_createResources w =
     addEventListener NumLightsChange
       (gpu
         [CreateTexture ''depthTexture'',
          CreateBuffer ''dragonVertexBuffer'',
          CreateBuffer ''dragonIndexBuffer'',
          CreateTexture ''gBufferTexture2DFloat16'',
          CreateTexture ''gBufferTextureAlbedo'',
          CreateView ''gBufferTexture2DFloat16'',
          CreateView ''gBufferTextureAlbedo'',
          CreateView ''depthTexture'',
          CreateBindGroup ''gBufferTexturesBindGroup'',
          CreateBuffer ''modelUniformBuffer'',
          CreateBuffer ''cameraUniformBuffer'',
          CreateBindGroup ''sceneUniformBindGroup'',
          CreateBuffer ''lightsBuffer'',
          CreateBuffer ''configUniformBuffer'',
          CreateBuffer ''lightExtentBuffer'',
          CreateBindGroup ''lightsBufferBindGroup'',
          CreateBindGroup ''lightsBufferComputeBindGroup''] w)"

text \<open>The handler of the GUI's \<open>numLights\<close> slider.\<close>

definition deferred_onNumLightsChange :: "world \<Rightarrow> world" where
  "deferred_onNumLightsChange w = gpu [WriteBuffer ''configUniformBuffer'' 0] w"

definition deferred_frame :: "meshes \<Rightarrow> world \<Rightarrow> world" where
  "deferred_frame M w =
     requestAnimationFrame DeferredFrame
       (gpu ([WriteBuffer ''cameraUniformBuffer'' 0,
              WriteBuffer ''cameraUniformBuffer'' 64,
              CreateCommandEncoder,
              BeginRenderPass ''writeGBufferPassDescriptor'',
              SetPipeline ''writeGBuffersPipeline'',
              SetBindGroup 0 ''sceneUniformBindGroup'',
              SetVertexBuffer 0 ''dragonVertexBuffer'',
              SetIndexBuffer ''dragonIndexBuffer'',
              DrawIndexed (mesh_triangles_length M * 3) 1 0 0 0,
              EndPass,
              BeginComputePass,
              SetPipeline ''lightUpdateComputePipeline'',
              SetBindGroup 0 ''lightsBufferComputeBindGroup'',
              DispatchWorkgroups (Math_ceil_div kMaxNumLights 64),
              EndPass,
              CreateView ''currentTexture'']
             @ (if settings_mode w = ''gBuffers view''
                then [BeginRenderPass ''textureQuadPassDescriptor'',
                      SetPipeline ''gBuffersDebugViewPipeline'',
                      SetBindGroup 0 ''gBufferTexturesBindGroup'',
                      Draw 6 1 0 0,
                      EndPass]
                else [BeginRenderPass ''textureQuadPassDescriptor'',
                      SetPipeline ''deferredRenderingPipeline'',
                      SetBindGroup 0 ''gBufferTexturesBindGroup'',
                      SetBindGroup 1 ''lightsBufferBindGroup'',
                      Draw 6 1 0 0,
                      EndPass])
             @ [Finish, Submit 1]) w)"

definition deferred_draw :: "world \<Rightarrow> world" where
  "deferred_draw w =
     requestAnimationFrame DeferredFrame
       (gpu [WriteBuffer ''lightExtentBuffer'' 0,
             WriteBuffer ''modelUniformBuffer'' 0,
             WriteBuffer ''modelUniformBuffer'' 64,
             CreateView ''depthTexture'',
             CreateView ''currentTexture''] w)"

definition deferred_onResize :: "world \<Rightarrow> world" where
  "deferred_onResize w = deferred_draw (gpu [Configure] w)"

definition deferred_run :: "env \<Rightarrow> world \<Rightarrow> outcome" where
  "deferred_run e w =
     (if \<not> has_canvas e then Inl (Error ''No Canvas'', w)
      else
        await (initWebGPU ''Not Support WebGPU'' e w)
          (\<lambda>w1. await (Inr (deferred_initPipeline w1))
             (\<lambda>w2. Inr (addEventListener (Resize Deferred)
                          (deferred_draw (deferred_createResources w2))))))"

subsection \<open>The cube textured from a sprite sheet (cube_spriteTexture)\<close>

definition spriteTexture_initPipeline :: "env \<Rightarrow> world \<Rightarrow> outcome" where
  "spriteTexture_initPipeline e w =
     createRenderPipelineAsync ''pipeline'' e
       (gpu [CreateShaderModule ''cubeVert'', CreateShaderModule ''cubFrag''] w)"

text \<open>
  \<open>createResources\<close> awaits the load of the sprite sheet (\<open>fetch\<close>, \<open>res.blob\<close>,
  \<open>createImageBitmap\<close>) after it has created its first four objects; when the load
  rejects, so does \<open>createResources\<close>, and \<open>run\<close>, which awaits it.
\<close>

definition spriteTexture_createResources :: "env \<Rightarrow> world \<Rightarrow> outcome" where
  "spriteTexture_createResources e w =
     (let w1 = gpu [CreateBuffer ''verticesBuffer'',
                    CreateTexture ''depthTexture'',
                    CreateBuffer ''uniformBuffer'',
                    CreateBindGroup ''uniformGroup''] w
      in if \<not> image_loads e then Inl (ImageLoadRejected, w1)
         else Inr (gpu [CreateTexture ''texture'',
                        CopyExternalImageToTexture ''texture'',
                        CreateSampler,
                        CreateBuffer ''uvBuffer'',
                        WriteBuffer ''uvBuffer'' 0,
                        CreateView ''texture'',
                        CreateBindGroup ''textureGroup''] w1))"

text \<open>
  \<open>frame\<close> first increments \<open>count\<close>, and rewrites the sprite's offset on every
  thirtieth frame. Its parameter is \<open>count\<close> before the call.
\<close>

definition spriteTexture_frame :: "meshes \<Rightarrow> nat \<Rightarrow> world \<Rightarrow> world" where
  "spriteTexture_frame M count w =
     (let count1 = count + 1 in
      requestAnimationFrame (SpriteTextureFrame count1)
        (gpu ((if count1 mod 30 = 0 then [WriteBuffer ''uvBuffer'' 0] else [])
              @ [WriteBuffer ''uniformBuffer'' 0,
                 CreateView ''currentTexture'',
                 CreateCommandEncoder,
                 BeginRenderPass ''renderPassDescriptor'',
                 SetPipeline ''pipeline'',
                 SetBindGroup 0 ''uniformGroup'',
                 SetBindGroup 1 ''textureGroup'',
                 SetVertexBuffer 0 ''verticesBuffer'',
                 Draw (cubeVertexCount M) 1 0 0,
                 EndPass,
                 Finish,
                 Submit 1]) w))"

definition spriteTexture_draw :: "meshes \<Rightarrow> world \<Rightarrow> world" where
  "spriteTexture_draw M w =
     spriteTexture_frame M 0
       (gpu [CreateView ''currentTexture'', CreateView ''depthTexture''] w)"

definition spriteTexture_onResize :: "meshes \<Rightarrow> world \<Rightarrow> world" where
  "spriteTexture_onResize M w = spriteTexture_draw M (gpu [Configure] w)"

definition spriteTexture_run :: "meshes \<Rightarrow> env \<Rightarrow> world \<Rightarrow> outcome" where
  "spriteTexture_run M e w =
     (if \<not> has_canvas e then Inl (Error ''No Canvas'', w)
      else
        await (initWebGPU ''Not Support WebGPU'' e w)
          (\<lambda>w1. await (spriteTexture_initPipeline e w1)
             (\<lambda>w2. await (spriteTexture_createResources e w2)
                (\<lambda>w3. Inr (addEventListener (Resize SpriteTexture)
                               (spriteTexture_draw M w3))))))"

subsection \<open>The coloured triangle (color_triangle)\<close>

definition color_triangle_initPipeline :: "env \<Rightarrow> world \<Rightarrow> outcome" where
  "color_triangle_initPipeline e w =
     await (createRenderPipelineAsync ''pipeline'' e
              (gpu [CreateShaderModule ''triangle'', CreateShaderModule ''colorFrag''] w))
       (\<lambda>w1. Inr (gpu [CreateBuffer ''colorBuffer'',
                        WriteBuffer ''colorBuffer'' 0,
                        CreateBindGroup ''uniformGroup''] w1))"

definition color_triangle_draw :: "world \<Rightarrow> world" where
  "color_triangle_draw w =
     gpu [CreateCommandEncoder,
          CreateView ''currentTexture'',
          BeginRenderPass ''renderPassDescriptor'',
          SetPipeline ''pipeline'',
          SetBindGroup 0 ''uniformGroup'',
          Draw 3 1 0 0,
          EndPass,
          Finish,
          Submit 1] w"

text \<open>The handler of the colour input.\<close>

definition color_triangle_onColorInput :: "world \<Rightarrow> world" where
  "color_triangle_onColorInput w =
     color_triangle_draw (gpu [WriteBuffer ''colorBuffer'' 0] w)"

definition color_triangle_onResize :: "world \<Rightarrow> world" where
  "color_triangle_onResize w = color_triangle_draw (gpu [Configure] w)"

definition color_triangle_run :: "env \<Rightarrow> world \<Rightarrow> outcome" where
  "color_triangle_run e w =
     (if \<not> has_canvas e then Inl (Error ''No Canvas'', w)
      else
        await (initWebGPU ''Not Support WebGPU'' e w)
          (\<lambda>w1. await (color_triangle_initPipeline e w1)
             (\<lambda>w2. Inr (addEventListener (Resize ColorTriangle)
                          ((if has_color_input e then addEventListener ColorInput else id)
                             (color_triangle_draw w2))))))"

subsection \<open>Instanced cubes\<close>

definition instanced_numInstances :: nat where
  "instanced_numInstances = 4 * 4"

definition instanced_initPipeline :: "env \<Rightarrow> world \<Rightarrow> outcome" where
  "instanced_initPipeline e w =
     createRenderPipelineAsync ''pipeline'' e
       (gpu [CreateShaderModule ''cubeVert'', CreateShaderModule ''cubFrag''] w)"

definition instanced_frame :: "meshes \<Rightarrow> world \<Rightarrow> world" where
  "instanced_frame M w =
     requestAnimationFrame InstancedFrame
       (gpu [WriteBuffer ''uniformBuffer'' 0,
             CreateView ''currentTexture'',
             CreateCommandEncoder,
             BeginRenderPass ''renderPassDescriptor'',
             SetPipeline ''pipeline'',
             SetVertexBuffer 0 ''cubeVerticesBuffer'',
             SetBindGroup 0 ''uniformBindGroup'',
             Draw (cubeVertexCount M) 1 0 0,
             SetBindGroup 0 ''uniformBindGroup'',
             Draw (cubeVertexCount M) instanced_numInstances 0 0,
             EndPass,
             Finish,
             Submit 1] w)"

definition instanced_draw :: "world \<Rightarrow> world" where
  "instanced_draw w =
     requestAnimationFrame InstancedFrame
       (gpu [CreateBuffer ''cubeVerticesBuffer'',
             CreateTexture ''depthTexture'',
             CreateView ''currentTexture'',
             CreateView ''depthTexture'',
             CreateBuffer ''uniformBuffer'',
             CreateBindGroup ''uniformBindGroup''] w)"

definition instanced_onResize :: "world \<Rightarrow> world" where
  "instanced_onResize w = instanced_draw (gpu [Configure] w)"

definition instanced_run :: "env \<Rightarrow> world \<Rightarrow> outcome" where
  "instanced_run e w =
     (if \<not> has_canvas e then Inl (Error ''No Canvas'', w)
      else
        await (initWebGPU ''Not Support WebGPU'' e w)
          (\<lambda>w1. await (instanced_initPipeline e w1)
             (\<lambda>w2. Inr (addEventListener (Resize InstancedCubes) (instanced_draw w2)))))"

subsection \<open>The demos together\<close>

fun run :: "demo \<Rightarrow> meshes \<Rightarrow> env \<Rightarrow> world \<Rightarrow> outcome" where
  "run Cube M = cube_run M"
| "run Multisample M = multisample_run"
| "run ShadowMapping M = shadowMapping_run"
| "run BaseLighting M = base_lighting_run"
| "run CanvasTexture M = canvasTexture_run M"
| "run BaseLighting2 M = base_lighting2_run"
| "run TwoCubes M = two_cubes_run"
| "run ImageTexture M = imageTexture_run"
| "run Deferred M = deferred_run"
| "run SpriteTexture M = spriteTexture_run M"
| "run ColorTriangle M = color_triangle_run"
| "run InstancedCubes M = instanced_run"

text \<open>\<open>initPipeline\<close> of deferred rendering creates its pipelines with the calls
  that return at once, and cannot fail.\<close>

fun initPipeline :: "demo \<Rightarrow> env \<Rightarrow> world \<Rightarrow> outcome" where
  "initPipeline Cube e w = cube_initPipeline e w"
| "initPipeline Multisample e w = multisample_initPipeline e w"
| "initPipeline ShadowMapping e w = shadowMapping_initPipeline e w"
| "initPipeline BaseLighting e w = base_lighting_initPipeline e w"
| "initPipeline CanvasTexture e w = canvasTexture_initPipeline e w"
| "initPipeline BaseLighting2 e w = base_lighting2_initPipeline e w"
| "initPipeline TwoCubes e w = two_cubes_initPipeline e w"
| "initPipeline ImageTexture e w = imageTexture_initPipeline e w"
| "initPipeline Deferred e w = Inr (deferred_initPipeline w)"
| "initPipeline SpriteTexture e w = spriteTexture_initPipeline e w"
| "initPipeline ColorTriangle e w = color_triangle_initPipeline e w"
| "initPipeline InstancedCubes e w = instanced_initPipeline e w"

fun draw :: "demo \<Rightarrow> meshes \<Rightarrow> world \<Rightarrow> world" where
  "draw Cube M = cube_draw M"
| "draw Multisample M = multisample_draw"
| "draw ShadowMapping M = shadowMapping_draw"
| "draw BaseLighting M = base_lighting_draw"
| "draw CanvasTexture M = canvasTexture_draw M"
| "draw BaseLighting2 M = base_lighting2_draw"
| "draw TwoCubes M = two_cubes_draw"
| "draw ImageTexture M = imageTexture_draw"
| "draw Deferred M = deferred_draw"
| "draw SpriteTexture M = spriteTexture_draw M"
| "draw ColorTriangle M = color_triangle_draw"
| "draw InstancedCubes M = instanced_draw"

fun onResize :: "demo \<Rightarrow> meshes \<Rightarrow> world \<Rightarrow> world" where
  "onResize Cube M = cube_onResize M"
| "onResize Multisample M = multisample_onResize"
| "onResize ShadowMapping M = shadowMapping_onResize"
| "onResize BaseLighting M = base_lighting_onResize"
| "onResize CanvasTexture M = canvasTexture_onResize M"
| "onResize BaseLighting2 M = base_lighting2_onResize"
| "onResize TwoCubes M = two_cubes_onResize"
| "onResize ImageTexture M = imageTexture_onResize"
| "onResize Deferred M = deferred_onResize"
| "onResize SpriteTexture M = spriteTexture_onResize M"
| "onResize ColorTriangle M = color_triangle_onResize"
| "onResize InstancedCubes M = instanced_onResize"

text \<open>The browser runs a handler by calling it; a \<open>resize\<close> event of the window
  runs the resize listeners in the order of their registration.\<close>

fun run_handler :: "meshes \<Rightarrow> handler \<Rightarrow> world \<Rightarrow> world" where
  "run_handler M (Resize d) = onResize d M"
| "run_handler M ColorInput = color_triangle_onColorInput"
| "run_handler M NumLightsChange = deferred_onNumLightsChange"

fun is_resize :: "handler \<Rightarrow> bool" where
  "is_resize (Resize d) = True"
| "is_resize h = False"

definition resize_event :: "meshes \<Rightarrow> world \<Rightarrow> world" where
  "resize_event M w = fold (run_handler M) (filter is_resize (listeners w)) w"

text \<open>The browser runs a callback by calling the closure.\<close>

fun run_callback :: "meshes \<Rightarrow> callback \<Rightarrow> world \<Rightarrow> world" where
  "run_callback M CubeFrame = cube_frame M"
| "run_callback M ShadowMappingFrame = shadowMapping_frame M"
| "run_callback M BaseLightingFrame = base_lighting_frame M"
| "run_callback M CanvasTextureFrame = canvasTexture_frame M"
| "run_callback M BaseLighting2Frame = base_lighting2_frame M"
| "run_callback M TwoCubesFrame = two_cubes_frame M"
| "run_callback M ImageTextureFrame = imageTexture_frame M"
| "run_callback M DeferredFrame = deferred_frame M"
| "run_callback M (SpriteTextureFrame count) = spriteTexture_frame M count"
| "run_callback M InstancedFrame = instanced_frame M"

text \<open>
  When the load that the first suspended function awaits settles, the browser resumes
  the function if the load has succeeded, and drops it if the load has failed.
\<close>

fun run_task :: "meshes \<Rightarrow> task \<Rightarrow> world \<Rightarrow> world" where
  "run_task M ImageTextureDraw = imageTexture_draw_loaded M"

definition image_settled :: "meshes \<Rightarrow> bool \<Rightarrow> world \<Rightarrow> world" where
  "image_settled M loaded w =
     (case suspended w of
        [] \<Rightarrow> w
      | t # ts \<Rightarrow>
          if loaded then run_task M t (w\<lparr> suspended := ts \<rparr>)
          else w\<lparr> suspended := ts \<rparr>)"

text \<open>The demo whose \<open>frame\<close> a callback is.\<close>

fun demo_of :: "callback \<Rightarrow> demo" where
  "demo_of CubeFrame = Cube"
| "demo_of ShadowMappingFrame = ShadowMapping"
| "demo_of BaseLightingFrame = BaseLighting"
| "demo_of CanvasTextureFrame = CanvasTexture"
| "demo_of BaseLighting2Frame = BaseLighting2"
| "demo_of TwoCubesFrame = TwoCubes"
| "demo_of ImageTextureFrame = ImageTexture"
| "demo_of DeferredFrame = Deferred"
| "demo_of (SpriteTextureFrame count) = SpriteTexture"
| "demo_of InstancedFrame = InstancedCubes"


subsection \<open>Reading a trace\<close>

text \<open>The calls that a step adds to the trace.\<close>

definition emitted :: "(world \<Rightarrow> world) \<Rightarrow> world \<Rightarrow> call list" where
  "emitted step w = drop (length (calls w)) (calls (step w))"

fun is_draw :: "call \<Rightarrow> bool" where
  "is_draw (Draw n i fv fi) = True"
| "is_draw (DrawIndexed n i fx bv fi) = True"
| "is_draw c = False"

fun is_submit :: "call \<Rightarrow> bool" where
  "is_submit (Submit n) = True"
| "is_submit c = False"

fun is_pipeline_creation :: "call \<Rightarrow> bool" where
  "is_pipeline_creation (CreateRenderPipeline p) = True"
| "is_pipeline_creation (CreateComputePipeline p) = True"
| "is_pipeline_creation c = False"

fun is_shader_creation :: "call \<Rightarrow> bool" where
  "is_shader_creation (CreateShaderModule s) = True"
| "is_shader_creation c = False"

text \<open>Creation of a buffer, texture, pipeline or bind group; and destruction.\<close>

fun is_creation :: "call \<Rightarrow> bool" where
  "is_creation (CreateBuffer b) = True"
| "is_creation (CreateTexture t) = True"
| "is_creation (CreateRenderPipeline p) = True"
| "is_creation (CreateComputePipeline p) = True"
| "is_creation (CreateBindGroup g) = True"
| "is_creation c = False"

fun is_destruction :: "call \<Rightarrow> bool" where
  "is_destruction (DestroyTexture t) = True"
| "is_destruction c = False"

text \<open>
  The stages of a command sequence: where a pass begins, the pipeline it sets, the
  workgroups it dispatches, where it ends, and each submission.
\<close>

fun is_stage_call :: "call \<Rightarrow> bool" where
  "is_stage_call (BeginRenderPass d) = True"
| "is_stage_call BeginComputePass = True"
| "is_stage_call (SetPipeline p) = True"
| "is_stage_call (DispatchWorkgroups n) = True"
| "is_stage_call EndPass = True"
| "is_stage_call (Submit n) = True"
| "is_stage_call c = False"

definition stages :: "call list \<Rightarrow> call list" where
  "stages cs = filter is_stage_call cs"

text \<open>The pipelines and the bind groups that a command sequence sets, in order.\<close>

fun pipeline_set :: "call \<Rightarrow> string option" where
  "pipeline_set (SetPipeline p) = Some p"
| "pipeline_set c = None"

definition pipelines_used :: "call list \<Rightarrow> string list" where
  "pipelines_used cs = List.map_filter pipeline_set cs"

fun bind_group_set :: "call \<Rightarrow> string option" where
  "bind_group_set (SetBindGroup i g) = Some g"
| "bind_group_set c = None"

definition bind_groups_used :: "call list \<Rightarrow> string list" where
  "bind_groups_used cs = List.map_filter bind_group_set cs"

text \<open>
  The conditions that \<open>run\<close> of a demo tests before it goes on: the canvas (for the
  canvas-texture demo also the second canvas and its 2D context), \<open>navigator.gpu\<close>
  and the adapter.
\<close>

definition guards_pass :: "demo \<Rightarrow> env \<Rightarrow> bool" where
  "guards_pass d e =
     (has_canvas e \<and> (if d = CanvasTexture then has_canvas2 e \<and> has_2d e else True) \<and>
      has_gpu e \<and> has_adapter e)"

text \<open>The promises for the pipelines of a demo all resolve.\<close>

definition pipelines_resolve :: "demo \<Rightarrow> env \<Rightarrow> bool" where
  "pipelines_resolve d e =
     (if d = Deferred then True
      else if d = ShadowMapping
      then pipeline_resolves e ''shadowPipeline'' \<and> pipeline_resolves e ''renderPipeline''
      else pipeline_resolves e ''pipeline'')"

text \<open>Creation of a pipeline or of a shader module.\<close>

definition builds_pipeline :: "call \<Rightarrow> bool" where
  "builds_pipeline c = (is_pipeline_creation c \<or> is_shader_creation c)"

text \<open>The error of an outcome that threw, and the state of the page an outcome leaves.\<close>

definition thrown_error :: "outcome \<Rightarrow> error option" where
  "thrown_error r = (case r of Inl (err, w) \<Rightarrow> Some err | Inr w \<Rightarrow> None)"

definition final_world :: "outcome \<Rightarrow> world" where
  "final_world r = (case r of Inl (err, w) \<Rightarrow> w | Inr w \<Rightarrow> w)"

text \<open>
  For closed instances: a page with its canvases on a browser with WebGPU and an
  adapter, and some counts for the meshes (the statements below hold for all counts).
\<close>

definition complete_env :: env where
  "complete_env = \<lparr> has_canvas = True, has_canvas2 = True, has_2d = True,
                     has_color_input = True, has_gpu = True, has_adapter = True,
                     device_resolves = True, pipeline_resolves = (\<lambda>p. True),
                     image_loads = True \<rparr>"

definition sample_meshes :: meshes where
  "sample_meshes = \<lparr> cubeVertexCount = 36, box_indexCount = 36, sphere_indexCount = 2880,
                      mesh_triangles_length = 1000 \<rparr>"

section \<open>Properties of the two-cubes uniform buffer\<close>


lemma two_cubes_sizes:
  "two_cubes_uniformBufferSize = 320" "two_cubes_matrixSize = 64" "two_cubes_offset = 256"
  by (simp_all add: two_cubes_uniformBufferSize_def two_cubes_matrixSize_def two_cubes_offset_def)

lemma two_cubes_write1_eq:
  assumes "is_mat4 m" "length buf = 320"
  shows "two_cubes_write1 buf m = Inr (buffer m @ drop 64 buf)"
  using assms by (simp add: two_cubes_write1_def writeBuffer_def is_mat4_def)

lemma two_cubes_write2_eq:
  assumes "is_mat4 m" "length buf = 320"
  shows "two_cubes_write2 buf m = Inr (take 256 buf @ buffer m)"
  using assms by (simp add: two_cubes_write2_def writeBuffer_def is_mat4_def two_cubes_sizes)

lemma write1_effect:
  assumes "is_mat4 m" "length buf = 320"
  shows "length (buffer m @ drop 64 buf) = 320"
    and "bound_bytes two_cubes_uniformBindGroup (buffer m @ drop 64 buf) = buffer m"
    and "bound_bytes two_cubes_uniformBindGroup2 (buffer m @ drop 64 buf)
           = bound_bytes two_cubes_uniformBindGroup2 buf"
    and "\<forall>i<320. i \<notin> {0..<64} \<longrightarrow> (buffer m @ drop 64 buf) ! i = buf ! i"
  using assms
  by (auto simp add: is_mat4_def bound_bytes_def two_cubes_uniformBindGroup_def
      two_cubes_uniformBindGroup2_def two_cubes_sizes nth_append)

lemma write2_effect:
  assumes "is_mat4 m" "length buf = 320"
  shows "length (take 256 buf @ buffer m) = 320"
    and "bound_bytes two_cubes_uniformBindGroup2 (take 256 buf @ buffer m) = buffer m"
    and "bound_bytes two_cubes_uniformBindGroup (take 256 buf @ buffer m)
           = bound_bytes two_cubes_uniformBindGroup buf"
    and "\<forall>i<320. i \<notin> {256..<320} \<longrightarrow> (take 256 buf @ buffer m) ! i = buf ! i"
  using assms
  by (auto simp add: is_mat4_def bound_bytes_def two_cubes_uniformBindGroup_def
      two_cubes_uniformBindGroup2_def two_cubes_sizes nth_append)

text \<open>
  C10. In the two-cubes demo the uniform buffer has 320 bytes, and the two bind groups
  view its bytes \<open>[0, 64)\<close> and \<open>[256, 320)\<close>, which are disjoint. Of the two
  writes of a frame, the first puts the first cube's matrix into bytes \<open>[0, 64)\<close>
  and changes no other byte, and the second puts the second cube's matrix into bytes
  \<open>[256, 320)\<close> and changes no other byte; so each write leaves the region bound
  for the other cube as it was.
\<close>

theorem two_cubes_disjoint_regions:
  assumes "is_mat4 m1" and "is_mat4 m2" and "length buf = two_cubes_uniformBufferSize"
  shows "two_cubes_uniformBufferSize = 320 \<and>
         length two_cubes_uniformBuffer = 320 \<and>
         bound_range two_cubes_uniformBindGroup = {0..<64} \<and>
         bound_range two_cubes_uniformBindGroup2 = {256..<320} \<and>
         bound_range two_cubes_uniformBindGroup \<inter> bound_range two_cubes_uniformBindGroup2 = {} \<and>
         (\<exists>b1 b2.
            two_cubes_write1 buf m1 = Inr b1 \<and> two_cubes_write2 b1 m2 = Inr b2 \<and>
            two_cubes_frame_writes buf m1 m2 = Inr b2 \<and>
            length b1 = 320 \<and> length b2 = 320 \<and>
            bound_bytes two_cubes_uniformBindGroup b1 = buffer m1 \<and>
            bound_bytes two_cubes_uniformBindGroup2 b1 = bound_bytes two_cubes_uniformBindGroup2 buf \<and>
            (\<forall>i<320. i \<notin> {0..<64} \<longrightarrow> b1 ! i = buf ! i) \<and>
            bound_bytes two_cubes_uniformBindGroup2 b2 = buffer m2 \<and>
            bound_bytes two_cubes_uniformBindGroup b2 = bound_bytes two_cubes_uniformBindGroup b1 \<and>
            (\<forall>i<320. i \<notin> {256..<320} \<longrightarrow> b2 ! i = b1 ! i))"
proof -
  have len: "length buf = 320" using assms(3) by (simp add: two_cubes_sizes)
  let ?b1 = "buffer m1 @ drop 64 buf"
  let ?b2 = "take 256 ?b1 @ buffer m2"
  have w1: "two_cubes_write1 buf m1 = Inr ?b1"
    by (rule two_cubes_write1_eq [OF assms(1) len])
  have len1: "length ?b1 = 320" by (rule write1_effect(1) [OF assms(1) len])
  have w2: "two_cubes_write2 ?b1 m2 = Inr ?b2"
    by (rule two_cubes_write2_eq [OF assms(2) len1])
  have fr: "two_cubes_frame_writes buf m1 m2 = Inr ?b2"
    by (simp add: two_cubes_frame_writes_def w1 w2)
  have ranges: "bound_range two_cubes_uniformBindGroup = {0..<64}"
    "bound_range two_cubes_uniformBindGroup2 = {256..<320}"
    by (simp_all add: bound_range_def two_cubes_uniformBindGroup_def
        two_cubes_uniformBindGroup2_def two_cubes_sizes)
  have disj: "bound_range two_cubes_uniformBindGroup \<inter> bound_range two_cubes_uniformBindGroup2 = {}"
    unfolding ranges by auto
  have created: "length two_cubes_uniformBuffer = 320"
    by (simp add: two_cubes_uniformBuffer_def createBuffer_def two_cubes_sizes)
  have ex: "\<exists>b1 b2.
            two_cubes_write1 buf m1 = Inr b1 \<and> two_cubes_write2 b1 m2 = Inr b2 \<and>
            two_cubes_frame_writes buf m1 m2 = Inr b2 \<and>
            length b1 = 320 \<and> length b2 = 320 \<and>
            bound_bytes two_cubes_uniformBindGroup b1 = buffer m1 \<and>
            bound_bytes two_cubes_uniformBindGroup2 b1 = bound_bytes two_cubes_uniformBindGroup2 buf \<and>
            (\<forall>i<320. i \<notin> {0..<64} \<longrightarrow> b1 ! i = buf ! i) \<and>
            bound_bytes two_cubes_uniformBindGroup2 b2 = buffer m2 \<and>
            bound_bytes two_cubes_uniformBindGroup b2 = bound_bytes two_cubes_uniformBindGroup b1 \<and>
            (\<forall>i<320. i \<notin> {256..<320} \<longrightarrow> b2 ! i = b1 ! i)"
    using w1 w2 fr len1 write1_effect(2-4) [OF assms(1) len]
      write2_effect [OF assms(2) len1]
    by blast
  from two_cubes_sizes(1) created ranges disj ex show ?thesis by blast
qed

theorem two_cubes_disjoint_regions_witness:
  "is_mat4 \<lparr> buffer = replicate 64 1, byteOffset = 0, byteLength = 64 \<rparr> \<and>
   is_mat4 \<lparr> buffer = replicate 64 2, byteOffset = 0, byteLength = 64 \<rparr> \<and> length two_cubes_uniformBuffer = two_cubes_uniformBufferSize \<and>
   two_cubes_frame_writes two_cubes_uniformBuffer
       \<lparr> buffer = replicate 64 1, byteOffset = 0, byteLength = 64 \<rparr>
       \<lparr> buffer = replicate 64 2, byteOffset = 0, byteLength = 64 \<rparr>
     = Inr (replicate 64 1 @ replicate 192 0 @ replicate 64 2)"
proof -
  let ?M1 = "\<lparr> buffer = replicate 64 1, byteOffset = 0, byteLength = 64 \<rparr> :: TypedArray"
  let ?M2 = "\<lparr> buffer = replicate 64 2, byteOffset = 0, byteLength = 64 \<rparr> :: TypedArray"
  have a: "is_mat4 ?M1" by (simp add: is_mat4_def )
  have b: "is_mat4 ?M2" by (simp add: is_mat4_def )
  have c: "length two_cubes_uniformBuffer = two_cubes_uniformBufferSize"
    by (simp add: two_cubes_uniformBuffer_def createBuffer_def)
  from two_cubes_disjoint_regions [OF a b c] obtain b1 b2 where
    r: "two_cubes_frame_writes two_cubes_uniformBuffer ?M1 ?M2 = Inr b2"
       "two_cubes_write1 two_cubes_uniformBuffer ?M1 = Inr b1" "two_cubes_write2 b1 ?M2 = Inr b2"
    by blast
  have "b1 = replicate 64 1 @ replicate 256 0"
    using r(2) by (simp add: two_cubes_write1_def writeBuffer_def  two_cubes_uniformBuffer_def createBuffer_def two_cubes_sizes)
  then have "b2 = replicate 64 1 @ replicate 192 0 @ replicate 64 2"
    using r(3) by (simp add: two_cubes_write2_def writeBuffer_def  two_cubes_sizes)
  with a b c r(1) show ?thesis by simp
qed

section \<open>Properties of the traces\<close>


subsection \<open>The trace grows by what a step emits\<close>

lemma calls_gpu [simp]: "calls (gpu cs w) = calls w @ cs"
  by (simp add: gpu_def)

lemma rafQueue_gpu [simp]: "rafQueue (gpu cs w) = rafQueue w"
  by (simp add: gpu_def)

lemma settings_mode_gpu [simp]: "settings_mode (gpu cs w) = settings_mode w"
  by (simp add: gpu_def)

lemma calls_requestAnimationFrame [simp]: "calls (requestAnimationFrame cb w) = calls w"
  by (simp add: requestAnimationFrame_def)

lemma rafQueue_requestAnimationFrame [simp]:
  "rafQueue (requestAnimationFrame cb w) = rafQueue w @ [cb]"
  by (simp add: requestAnimationFrame_def)

lemma settings_mode_requestAnimationFrame [simp]:
  "settings_mode (requestAnimationFrame cb w) = settings_mode w"
  by (simp add: requestAnimationFrame_def)

lemma listeners_gpu [simp]: "listeners (gpu cs w) = listeners w"
  by (simp add: gpu_def)

lemma listeners_requestAnimationFrame [simp]:
  "listeners (requestAnimationFrame cb w) = listeners w"
  by (simp add: requestAnimationFrame_def)

lemma calls_addEventListener [simp]: "calls (addEventListener h w) = calls w"
  by (simp add: addEventListener_def)

lemma rafQueue_addEventListener [simp]: "rafQueue (addEventListener h w) = rafQueue w"
  by (simp add: addEventListener_def)

lemma settings_mode_addEventListener [simp]:
  "settings_mode (addEventListener h w) = settings_mode w"
  by (simp add: addEventListener_def)

lemma listeners_addEventListener [simp]:
  "listeners (addEventListener h w) = listeners w @ [h]"
  by (simp add: addEventListener_def)

lemma suspended_gpu [simp]: "suspended (gpu cs w) = suspended w"
  by (simp add: gpu_def)

lemma suspended_requestAnimationFrame [simp]:
  "suspended (requestAnimationFrame cb w) = suspended w"
  by (simp add: requestAnimationFrame_def)

lemma suspended_addEventListener [simp]: "suspended (addEventListener h w) = suspended w"
  by (simp add: addEventListener_def)

lemma calls_suspend [simp]: "calls (suspend t w) = calls w"
  by (simp add: suspend_def)

lemma rafQueue_suspend [simp]: "rafQueue (suspend t w) = rafQueue w"
  by (simp add: suspend_def)

lemma listeners_suspend [simp]: "listeners (suspend t w) = listeners w"
  by (simp add: suspend_def)

lemma settings_mode_suspend [simp]: "settings_mode (suspend t w) = settings_mode w"
  by (simp add: suspend_def)

lemma suspended_suspend [simp]: "suspended (suspend t w) = suspended w @ [t]"
  by (simp add: suspend_def)

lemma emitted_eq: "calls (step w) = calls w @ cs \<Longrightarrow> emitted step w = cs"
  by (simp add: emitted_def)

subsection \<open>The frame of deferred rendering\<close>

lemma workgroups: "Math_ceil_div kMaxNumLights 64 = 16"
  by (simp add: Math_ceil_div_def kMaxNumLights_def)

lemma deferred_frame_emitted:
  "emitted (deferred_frame M) w =
     [WriteBuffer ''cameraUniformBuffer'' 0,
      WriteBuffer ''cameraUniformBuffer'' 64,
      CreateCommandEncoder,
      BeginRenderPass ''writeGBufferPassDescriptor'',
      SetPipeline ''writeGBuffersPipeline'',
      SetBindGroup 0 ''sceneUniformBindGroup'',
      SetVertexBuffer 0 ''dragonVertexBuffer'',
      SetIndexBuffer ''dragonIndexBuffer'',
      DrawIndexed (mesh_triangles_length M * 3) 1 0 0 0,
      EndPass,
      BeginComputePass,
      SetPipeline ''lightUpdateComputePipeline'',
      SetBindGroup 0 ''lightsBufferComputeBindGroup'',
      DispatchWorkgroups 16,
      EndPass,
      CreateView ''currentTexture'']
     @ (if settings_mode w = ''gBuffers view''
        then [BeginRenderPass ''textureQuadPassDescriptor'',
              SetPipeline ''gBuffersDebugViewPipeline'',
              SetBindGroup 0 ''gBufferTexturesBindGroup'',
              Draw 6 1 0 0,
              EndPass]
        else [BeginRenderPass ''textureQuadPassDescriptor'',
              SetPipeline ''deferredRenderingPipeline'',
              SetBindGroup 0 ''gBufferTexturesBindGroup'',
              SetBindGroup 1 ''lightsBufferBindGroup'',
              Draw 6 1 0 0,
              EndPass])
     @ [Finish, Submit 1]"
  by (rule emitted_eq) (simp add: deferred_frame_def workgroups)

text \<open>
  C1. Every run of the deferred-rendering demo's \<open>frame\<close> encodes, in this order,
  the G-buffer write render pass, the compute pass of the light update with
  \<open>ceil(1024 / 64)\<close> workgroups, one render pass on the canvas that uses the debug-view
  pipeline when \<open>settings.mode\<close> is \<open>gBuffers view\<close> and the deferred-rendering
  pipeline otherwise, and one \<open>queue.submit\<close> of one command buffer, finished from
  the one encoder; there is no other pass and no other submission. The callback then
  registers itself again.
\<close>

theorem deferred_frame_four_stages:
  "stages (emitted (deferred_frame M) w) =
     [BeginRenderPass ''writeGBufferPassDescriptor'',
      SetPipeline ''writeGBuffersPipeline'',
      EndPass,
      BeginComputePass,
      SetPipeline ''lightUpdateComputePipeline'',
      DispatchWorkgroups (nat \<lceil>1024 / 64 :: real\<rceil>),
      EndPass,
      BeginRenderPass ''textureQuadPassDescriptor'',
      SetPipeline (if settings_mode w = ''gBuffers view''
                   then ''gBuffersDebugViewPipeline'' else ''deferredRenderingPipeline''),
      EndPass,
      Submit 1] \<and>
   filter (\<lambda>c. c = CreateCommandEncoder \<or> c = Finish) (emitted (deferred_frame M) w)
     = [CreateCommandEncoder, Finish] \<and>
   run_callback M DeferredFrame w = deferred_frame M w \<and>
   rafQueue (deferred_frame M w) = rafQueue w @ [DeferredFrame]"
  by (simp add: deferred_frame_emitted stages_def) (simp add: deferred_frame_def)


subsection \<open>The functions of the demos, by kind\<close>

lemmas frame_defs =
  cube_frame_def shadowMapping_frame_def base_lighting_frame_def canvasTexture_frame_def
  base_lighting2_frame_def two_cubes_frame_def imageTexture_frame_def deferred_frame_def
  spriteTexture_frame_def instanced_frame_def

lemmas draw_defs =
  cube_draw_def multisample_draw_def shadowMapping_draw_def base_lighting_draw_def
  canvasTexture_draw_def base_lighting2_draw_def two_cubes_draw_def imageTexture_draw_def
  deferred_draw_def spriteTexture_draw_def color_triangle_draw_def instanced_draw_def

lemmas onResize_defs =
  cube_onResize_def multisample_onResize_def shadowMapping_onResize_def
  base_lighting_onResize_def canvasTexture_onResize_def base_lighting2_onResize_def
  two_cubes_onResize_def imageTexture_onResize_def deferred_onResize_def
  spriteTexture_onResize_def color_triangle_onResize_def instanced_onResize_def
  shadowMapping_updateCamera_def base_lighting_updateCamera_def
  base_lighting2_updateCamera_def

lemmas initPipeline_defs =
  createRenderPipelineAsync_def await_def
  cube_initPipeline_def multisample_initPipeline_def shadowMapping_initPipeline_def
  base_lighting_initPipeline_def canvasTexture_initPipeline_def
  base_lighting2_initPipeline_def two_cubes_initPipeline_def imageTexture_initPipeline_def
  deferred_initPipeline_def spriteTexture_initPipeline_def color_triangle_initPipeline_def
  instanced_initPipeline_def

lemmas createResources_defs =
  shadowMapping_createResources_def base_lighting_createResources_def
  canvasTexture_createResources_def base_lighting2_createResources_def
  deferred_createResources_def spriteTexture_createResources_def

lemmas run_defs =
  cube_run_def multisample_run_def shadowMapping_run_def base_lighting_run_def
  canvasTexture_run_def base_lighting2_run_def two_cubes_run_def imageTexture_run_def
  deferred_run_def spriteTexture_run_def color_triangle_run_def instanced_run_def

text \<open>
  C2. \<open>initPipeline\<close> of the deferred-rendering demo creates four pipelines and no
  others: the render pipelines that write the G-buffers, show the G-buffers and do
  the deferred rendering, and the compute pipeline of the light update. The debug view
  and the deferred composite are two pipelines, so the count is not three. A frame
  chains three of the four: the G-buffer write, the light update, and either the debug
  view or the deferred rendering, which both read the G-buffers through the one bind
  group \<open>gBufferTexturesBindGroup\<close>.
\<close>

theorem deferred_initPipeline_four_pipelines:
  "filter is_pipeline_creation (emitted deferred_initPipeline w) =
     [CreateRenderPipeline ''writeGBuffersPipeline'',
      CreateRenderPipeline ''gBuffersDebugViewPipeline'',
      CreateRenderPipeline ''deferredRenderingPipeline'',
      CreateComputePipeline ''lightUpdateComputePipeline''] \<and>
   pipelines_used (emitted (deferred_frame M) w) =
     [''writeGBuffersPipeline'', ''lightUpdateComputePipeline'',
      if settings_mode w = ''gBuffers view''
      then ''gBuffersDebugViewPipeline'' else ''deferredRenderingPipeline''] \<and>
   bind_groups_used (emitted (deferred_frame M) w) =
     [''sceneUniformBindGroup'', ''lightsBufferComputeBindGroup'', ''gBufferTexturesBindGroup'']
     @ (if settings_mode w = ''gBuffers view'' then [] else [''lightsBufferBindGroup''])"
  by (simp add: deferred_frame_emitted pipelines_used_def bind_groups_used_def
      List.map_filter_simps)
    (simp add: emitted_def deferred_initPipeline_def)

text \<open>The claim C2 as stated, three pipelines and no others, fails: the count is four.\<close>

theorem deferred_initPipeline_not_three:
  "length (filter is_pipeline_creation (emitted deferred_initPipeline initial_world)) \<noteq> 3"
  by (simp add: emitted_def deferred_initPipeline_def)


subsection \<open>Submissions and draw calls of a frame\<close>

lemma callback_submits:
  "filter is_submit (emitted (run_callback M cb) w) = [Submit 1]"
  by (cases cb) (simp_all add: emitted_def frame_defs)

lemma callback_draws:
  "length (filter is_draw (emitted (run_callback M cb) w)) =
     (if demo_of cb \<in> {Cube, CanvasTexture, ImageTexture, SpriteTexture} then 1
      else if demo_of cb = ShadowMapping then 4 else 2)"
  by (cases cb) (simp_all add: emitted_def frame_defs)

text \<open>
  C4. Each run of a frame callback makes one \<open>queue.submit\<close>, of one command buffer.
  The number of \<open>draw\<close> and \<open>drawIndexed\<close> calls in that command buffer depends on
  the demo: one for the cube, canvas-texture, image-texture and sprite-texture demos,
  four for shadow mapping, two for the others (two cubes, instanced cubes, both lighting
  demos, deferred rendering). The colour-triangle and multisample demos have no frame
  callback; each call of their \<open>draw\<close> submits one command buffer with one draw.
\<close>

theorem frame_one_submit:
  "filter is_submit (emitted (run_callback M cb) w) = [Submit 1] \<and>
   length (filter is_draw (emitted (run_callback M cb) w)) =
     (if demo_of cb \<in> {Cube, CanvasTexture, ImageTexture, SpriteTexture} then 1
      else if demo_of cb = ShadowMapping then 4 else 2) \<and>
   filter is_submit (emitted (draw ColorTriangle M) w) = [Submit 1] \<and>
   length (filter is_draw (emitted (draw ColorTriangle M) w)) = 1 \<and>
   filter is_submit (emitted (draw Multisample M) w) = [Submit 1] \<and>
   length (filter is_draw (emitted (draw Multisample M) w)) = 1"
  using callback_submits [of M cb w] callback_draws [of M cb w]
  by (simp add: emitted_def color_triangle_draw_def multisample_draw_def)

text \<open>The claim C4 as stated, one draw call in a frame, fails for \<open>frame\<close> of
  base_lighting.ts.\<close>

theorem base_lighting_frame_two_draws:
  "length (filter is_draw (emitted (base_lighting_frame sample_meshes) initial_world)) \<noteq> 1"
  by (simp add: emitted_def base_lighting_frame_def)

subsection \<open>The frame loop\<close>











lemma image_failed:
  assumes "suspended w = ImageTextureDraw # ts"
  shows "rafQueue (image_settled M False w) = rafQueue w \<and>
         calls (image_settled M False w) = calls w \<and>
         suspended (image_settled M False w) = ts"
  using assms by (simp add: image_settled_def)




subsection \<open>Failures of \<open>run\<close>\<close>

lemma await_simps [simp]:
  "await (Inl x) k = Inl x"
  "await (Inr w) k = k w"
  by (simp_all add: await_def)

lemma initWebGPU_cases:
  "initWebGPU msg e w =
     (if \<not> has_gpu e then Inl (Error msg, w)
      else if \<not> has_adapter e then Inl (Error ''No Adapter Found'', gpu [RequestAdapter] w)
      else if \<not> device_resolves e
      then Inl (RequestDeviceRejected, gpu [RequestDevice] (gpu [RequestAdapter] w))
      else Inr (gpu [Configure] (gpu [RequestDevice] (gpu [RequestAdapter] w))))"
  by (simp add: initWebGPU_def Let_def)

lemmas start_defs =
  run_defs initWebGPU_cases initPipeline_defs spriteTexture_createResources_def
  guards_pass_def pipelines_resolve_def thrown_error_def final_world_def Let_def

lemma run_throws_iff:
  "(thrown_error (run d M e w) \<noteq> None) =
     (\<not> guards_pass d e \<or> \<not> device_resolves e \<or> \<not> pipelines_resolve d e \<or>
      (d = SpriteTexture \<and> \<not> image_loads e))"
  by (cases d) (auto simp add: start_defs)

lemma run_guard_throws:
  "\<not> guards_pass d e \<Longrightarrow>
     (\<exists>msg. thrown_error (run d M e w) = Some (Error msg)) \<and>
     (calls (final_world (run d M e w)) = calls w \<or>
      calls (final_world (run d M e w)) = calls w @ [RequestAdapter])"
  by (cases d) (auto simp add: start_defs split: if_splits)

lemma run_no_canvas:
  "\<not> has_canvas e \<Longrightarrow> thrown_error (run d M e w) = Some (Error ''No Canvas'')"
  by (cases d) (auto simp add: run_defs thrown_error_def)

lemma run_no_2d:
  "has_canvas e \<Longrightarrow> has_canvas2 e \<Longrightarrow> \<not> has_2d e \<Longrightarrow>
     thrown_error (run CanvasTexture M e w) = Some (Error ''No support 2d'')"
  by (simp add: canvasTexture_run_def thrown_error_def)

lemma run_no_gpu:
  "has_canvas e \<Longrightarrow> (d = CanvasTexture \<longrightarrow> has_canvas2 e \<and> has_2d e) \<Longrightarrow> \<not> has_gpu e \<Longrightarrow>
     thrown_error (run d M e w) =
       Some (Error (if d = Multisample then ''Not Support WebGpu'' else ''Not Support WebGPU'')) \<and>
     calls (final_world (run d M e w)) = calls w"
  by (cases d) (auto simp add: run_defs initWebGPU_cases thrown_error_def final_world_def)

lemma run_no_adapter:
  "has_canvas e \<Longrightarrow> (d = CanvasTexture \<longrightarrow> has_canvas2 e \<and> has_2d e) \<Longrightarrow> has_gpu e \<Longrightarrow>
   \<not> has_adapter e \<Longrightarrow> thrown_error (run d M e w) = Some (Error ''No Adapter Found'')"
  by (cases d) (auto simp add: run_defs initWebGPU_cases thrown_error_def)

lemma run_no_device:
  "guards_pass d e \<Longrightarrow> \<not> device_resolves e \<Longrightarrow>
     thrown_error (run d M e w) = Some RequestDeviceRejected \<and>
     calls (final_world (run d M e w)) = calls w @ [RequestAdapter, RequestDevice]"
  by (cases d) (auto simp add: start_defs)

lemma run_no_pipeline:
  "guards_pass d e \<Longrightarrow> device_resolves e \<Longrightarrow> \<not> pipelines_resolve d e \<Longrightarrow>
     (\<exists>p. thrown_error (run d M e w) = Some (CreatePipelineRejected p)) \<and>
     filter is_creation (emitted (\<lambda>w. final_world (run d M e w)) w) =
       (if d = ShadowMapping \<and> pipeline_resolves e ''shadowPipeline''
        then [CreateRenderPipeline ''shadowPipeline''] else []) \<and>
     rafQueue (final_world (run d M e w)) = rafQueue w \<and>
     listeners (final_world (run d M e w)) = listeners w"
  by (cases d) (auto simp add: start_defs emitted_def)

lemma sprite_load_rejected:
  "guards_pass SpriteTexture e \<Longrightarrow> device_resolves e \<Longrightarrow>
   pipelines_resolve SpriteTexture e \<Longrightarrow> \<not> image_loads e \<Longrightarrow>
     thrown_error (run SpriteTexture M e w) = Some ImageLoadRejected \<and>
     filter is_creation (emitted (\<lambda>w. final_world (run SpriteTexture M e w)) w) =
       [CreateRenderPipeline ''pipeline'', CreateBuffer ''verticesBuffer'',
        CreateTexture ''depthTexture'', CreateBuffer ''uniformBuffer'',
        CreateBindGroup ''uniformGroup''] \<and>
     rafQueue (final_world (run SpriteTexture M e w)) = rafQueue w \<and>
     listeners (final_world (run SpriteTexture M e w)) = listeners w"
  by (simp add: start_defs emitted_def)

lemma image_texture_run_suspends:
  "guards_pass ImageTexture e \<Longrightarrow> device_resolves e \<Longrightarrow>
   pipelines_resolve ImageTexture e \<Longrightarrow>
     thrown_error (run ImageTexture M e w) = None \<and>
     suspended (final_world (run ImageTexture M e w)) = suspended w @ [ImageTextureDraw] \<and>
     rafQueue (final_world (run ImageTexture M e w)) = rafQueue w \<and>
     filter is_submit (emitted (\<lambda>w. final_world (run ImageTexture M e w)) w) = []"
  by (simp add: start_defs imageTexture_draw_def emitted_def)

text \<open>
  C3. For every demo, \<open>run\<close> fails exactly when one of its guards fails (the page
  lacks a canvas, for the canvas-texture demo also the second canvas or its 2D
  context; \<open>navigator.gpu\<close> is absent; no adapter is found), or a promise of the
  browser that it awaits rejects: \<open>requestDevice\<close>, \<open>createRenderPipelineAsync\<close>
  for one of the demo's pipelines or, in the sprite demo, the image load of
  \<open>createResources\<close>. A failed guard throws an error of the script before any call
  but possibly \<open>requestAdapter\<close>: no GPU object exists yet. Without a canvas the error
  is \<open>No Canvas\<close>; without the 2D context of the second canvas it is
  \<open>No support 2d\<close>; with a complete page and no \<open>navigator.gpu\<close> it is the demo's
  not-supported error, before any call; with \<open>navigator.gpu\<close> and no adapter it is
  \<open>No Adapter Found\<close>. A rejected \<open>requestDevice\<close> fails \<open>run\<close> after the two
  requests and nothing else. A rejected pipeline fails \<open>run\<close> before any buffer,
  texture, pipeline or bind group exists, but for the second pipeline of shadow
  mapping, which is rejected after the first exists. The rejected load of the sprite
  demo fails \<open>run\<close> after the pipeline, two buffers, the depth texture and a bind group
  have been created; both rejections come
  before any callback or listener is registered. In the image-texture demo the load is
  awaited by \<open>draw\<close>, which \<open>run\<close> does not await: \<open>run\<close> does not fail with it,
  and leaves \<open>draw\<close> suspended with nothing submitted; a failed load then ends
  \<open>draw\<close> without a call.
\<close>

theorem run_failure_paths:
  "(thrown_error (run d M e w) \<noteq> None) =
     (\<not> guards_pass d e \<or> \<not> device_resolves e \<or> \<not> pipelines_resolve d e \<or>
      (d = SpriteTexture \<and> \<not> image_loads e)) \<and>
   (\<not> guards_pass d e \<longrightarrow>
      (\<exists>msg. thrown_error (run d M e w) = Some (Error msg)) \<and>
      (calls (final_world (run d M e w)) = calls w \<or>
       calls (final_world (run d M e w)) = calls w @ [RequestAdapter])) \<and>
   (\<not> has_canvas e \<longrightarrow> thrown_error (run d M e w) = Some (Error ''No Canvas'')) \<and>
   (has_canvas e \<and> has_canvas2 e \<and> \<not> has_2d e \<longrightarrow>
      thrown_error (run CanvasTexture M e w) = Some (Error ''No support 2d'')) \<and>
   (has_canvas e \<and> (d = CanvasTexture \<longrightarrow> has_canvas2 e \<and> has_2d e) \<and> \<not> has_gpu e \<longrightarrow>
      thrown_error (run d M e w) =
        Some (Error (if d = Multisample then ''Not Support WebGpu'' else ''Not Support WebGPU'')) \<and>
      calls (final_world (run d M e w)) = calls w) \<and>
   (has_canvas e \<and> (d = CanvasTexture \<longrightarrow> has_canvas2 e \<and> has_2d e) \<and> has_gpu e \<and>
    \<not> has_adapter e \<longrightarrow>
      thrown_error (run d M e w) = Some (Error ''No Adapter Found'')) \<and>
   (guards_pass d e \<and> \<not> device_resolves e \<longrightarrow>
      thrown_error (run d M e w) = Some RequestDeviceRejected \<and>
      calls (final_world (run d M e w)) = calls w @ [RequestAdapter, RequestDevice]) \<and>
   (guards_pass d e \<and> device_resolves e \<and> \<not> pipelines_resolve d e \<longrightarrow>
      (\<exists>p. thrown_error (run d M e w) = Some (CreatePipelineRejected p)) \<and>
      filter is_creation (emitted (\<lambda>w. final_world (run d M e w)) w) =
        (if d = ShadowMapping \<and> pipeline_resolves e ''shadowPipeline''
         then [CreateRenderPipeline ''shadowPipeline''] else []) \<and>
      rafQueue (final_world (run d M e w)) = rafQueue w \<and>
      listeners (final_world (run d M e w)) = listeners w) \<and>
   (guards_pass SpriteTexture e \<and> device_resolves e \<and> pipelines_resolve SpriteTexture e \<and>
    \<not> image_loads e \<longrightarrow>
      thrown_error (run SpriteTexture M e w) = Some ImageLoadRejected \<and>
      filter is_creation (emitted (\<lambda>w. final_world (run SpriteTexture M e w)) w) =
        [CreateRenderPipeline ''pipeline'', CreateBuffer ''verticesBuffer'',
         CreateTexture ''depthTexture'', CreateBuffer ''uniformBuffer'',
         CreateBindGroup ''uniformGroup''] \<and>
      rafQueue (final_world (run SpriteTexture M e w)) = rafQueue w \<and>
      listeners (final_world (run SpriteTexture M e w)) = listeners w) \<and>
   (guards_pass ImageTexture e \<and> device_resolves e \<and> pipelines_resolve ImageTexture e \<longrightarrow>
      thrown_error (run ImageTexture M e w) = None \<and>
      suspended (final_world (run ImageTexture M e w)) = suspended w @ [ImageTextureDraw] \<and>
      rafQueue (final_world (run ImageTexture M e w)) = rafQueue w \<and>
      filter is_submit (emitted (\<lambda>w. final_world (run ImageTexture M e w)) w) = []) \<and>
   (suspended w = ImageTextureDraw # ts \<longrightarrow>
      calls (image_settled M False w) = calls w \<and>
      rafQueue (image_settled M False w) = rafQueue w)"
  apply (intro conjI)
  subgoal by (rule run_throws_iff)
  subgoal using run_guard_throws [of d e M w] by blast
  subgoal using run_no_canvas [of e d M w] by blast
  subgoal using run_no_2d [of e M w] by blast
  subgoal using run_no_gpu [of e d M w] by blast
  subgoal using run_no_adapter [of e d M w] by blast
  subgoal using run_no_device [of d e M w] by blast
  subgoal using run_no_pipeline [of d e M w] by blast
  subgoal using sprite_load_rejected [of e M w] by blast
  subgoal using image_texture_run_suspends [of e M w] by blast
  subgoal using image_failed [of w ts M] by blast
  done

theorem run_failure_paths_witness:
  "thrown_error (run Deferred sample_meshes (complete_env\<lparr> has_gpu := False \<rparr>) initial_world)
     = Some (Error ''Not Support WebGPU'') \<and>
   calls (final_world (run Deferred sample_meshes (complete_env\<lparr> has_gpu := False \<rparr>) initial_world))
     = [] \<and>
   thrown_error (run Deferred sample_meshes (complete_env\<lparr> has_canvas := False \<rparr>) initial_world)
     = Some (Error ''No Canvas'') \<and>
   thrown_error (run Deferred sample_meshes (complete_env\<lparr> has_adapter := False \<rparr>) initial_world)
     = Some (Error ''No Adapter Found'') \<and>
   thrown_error (run CanvasTexture sample_meshes (complete_env\<lparr> has_2d := False \<rparr>) initial_world)
     = Some (Error ''No support 2d'') \<and>
   thrown_error (run Cube sample_meshes (complete_env\<lparr> device_resolves := False \<rparr>) initial_world)
     = Some RequestDeviceRejected \<and>
   thrown_error (run Cube sample_meshes
                   (complete_env\<lparr> pipeline_resolves := (\<lambda>p. False) \<rparr>) initial_world)
     = Some (CreatePipelineRejected ''pipeline'') \<and>
   thrown_error (run SpriteTexture sample_meshes (complete_env\<lparr> image_loads := False \<rparr>) initial_world)
     = Some ImageLoadRejected \<and>
   thrown_error (run ImageTexture sample_meshes (complete_env\<lparr> image_loads := False \<rparr>) initial_world)
     = None \<and>
   suspended (final_world (run ImageTexture sample_meshes complete_env initial_world))
     = [ImageTextureDraw] \<and>
   calls (image_settled sample_meshes False
            (final_world (run ImageTexture sample_meshes complete_env initial_world)))
     = calls (final_world (run ImageTexture sample_meshes complete_env initial_world)) \<and>
   thrown_error (run Deferred sample_meshes complete_env initial_world) = None"
proof -
  let ?wi = "final_world (run ImageTexture sample_meshes complete_env initial_world)"
  have g: "guards_pass d complete_env" for d
    by (simp add: guards_pass_def complete_env_def)
  have g': "guards_pass d (complete_env\<lparr> image_loads := False \<rparr>)" for d
    by (simp add: guards_pass_def complete_env_def)
  have p: "pipelines_resolve d complete_env" for d
    by (simp add: pipelines_resolve_def complete_env_def)
  have c: "thrown_error (run Cube sample_meshes
                   (complete_env\<lparr> pipeline_resolves := (\<lambda>p. False) \<rparr>) initial_world)
             = Some (CreatePipelineRejected ''pipeline'')"
    by (simp add: cube_run_def initWebGPU_cases initPipeline_defs complete_env_def
        thrown_error_def)
  have s: "suspended ?wi = ImageTextureDraw # []"
    using run_failure_paths
      [where d = ImageTexture and M = sample_meshes and e = complete_env
        and w = initial_world and ts = "[]"] g p
    by (simp add: initial_world_def complete_env_def)
  from s g g' p c
    run_failure_paths [where d = Deferred and M = sample_meshes
      and e = "complete_env\<lparr> has_gpu := False \<rparr>" and w = initial_world and ts = "[]"]
    run_failure_paths [where d = Deferred and M = sample_meshes
      and e = "complete_env\<lparr> has_canvas := False \<rparr>" and w = initial_world and ts = "[]"]
    run_failure_paths [where d = Deferred and M = sample_meshes
      and e = "complete_env\<lparr> has_adapter := False \<rparr>" and w = initial_world and ts = "[]"]
    run_failure_paths [where d = CanvasTexture and M = sample_meshes
      and e = "complete_env\<lparr> has_2d := False \<rparr>" and w = initial_world and ts = "[]"]
    run_failure_paths [where d = Cube and M = sample_meshes
      and e = "complete_env\<lparr> device_resolves := False \<rparr>" and w = initial_world and ts = "[]"]
    run_failure_paths [where d = SpriteTexture and M = sample_meshes
      and e = "complete_env\<lparr> image_loads := False \<rparr>" and w = initial_world and ts = "[]"]
    run_failure_paths [where d = ImageTexture and M = sample_meshes
      and e = "complete_env\<lparr> image_loads := False \<rparr>" and w = initial_world and ts = "[]"]
    run_failure_paths [where d = Deferred and M = sample_meshes
      and e = complete_env and w = ?wi and ts = "[]"]
    run_failure_paths [where d = Deferred and M = sample_meshes
      and e = complete_env and w = initial_world and ts = "[]"]
  show ?thesis
    by (simp add: complete_env_def initial_world_def guards_pass_def pipelines_resolve_def)
qed

text \<open>The claim C3 as stated, a throw only when \<open>navigator.gpu\<close> is absent, fails
  for the deferred-rendering demo on a browser that has WebGPU and returns no adapter.\<close>

theorem deferred_run_no_adapter:
  "has_gpu (complete_env\<lparr> has_adapter := False \<rparr>) \<and>
   deferred_run (complete_env\<lparr> has_adapter := False \<rparr>) initial_world
     = Inl (Error ''No Adapter Found'', gpu [RequestAdapter] initial_world)"
  by (simp add: deferred_run_def initWebGPU_cases complete_env_def)

subsection \<open>Creation and destruction of GPU objects\<close>

lemma callback_creates_nothing:
  "filter is_creation (emitted (run_callback M cb) w) = [] \<and>
   filter is_destruction (emitted (run_callback M cb) w) = []"
  by (cases cb) (simp_all add: emitted_def frame_defs Let_def)

lemma onResize_destructions:
  "filter is_destruction (emitted (onResize d M) w) =
     (if d = ShadowMapping then [DestroyTexture ''renderDepthTexture''] else [])"
  by (cases d) (simp_all add: emitted_def onResize_defs draw_defs frame_defs Let_def)

lemma onResize_creations:
  "(filter is_creation (emitted (onResize d M) w) = []) =
     (d \<in> {BaseLighting, CanvasTexture, BaseLighting2, Deferred, SpriteTexture, ColorTriangle})"
  by (cases d) (simp_all add: emitted_def onResize_defs draw_defs frame_defs Let_def)

lemma draw_destroys_nothing:
  "filter is_destruction (emitted (draw d M) w) = []"
  by (cases d) (simp_all add: emitted_def draw_defs frame_defs Let_def)

lemma task_creations:
  "filter is_destruction (emitted (run_task M t) w) = [] \<and>
   filter is_creation (emitted (run_task M t) w) =
     [CreateTexture ''texture'', CreateBindGroup ''textureGroup'']"
  by (cases t) (simp add: emitted_def imageTexture_draw_loaded_def imageTexture_frame_def)

lemma image_settled_emitted:
  "emitted (image_settled M loaded) w =
     (case suspended w of
        [] \<Rightarrow> []
      | t # ts \<Rightarrow> if loaded then emitted (run_task M t) (w\<lparr> suspended := ts \<rparr>) else [])"
  by (cases "suspended w") (simp_all add: image_settled_def emitted_def)

lemma image_settled_destroys_nothing:
  "filter is_destruction (emitted (image_settled M loaded) w) = []"
  using task_creations
  by (cases "suspended w") (simp_all add: image_settled_emitted)

text \<open>
  C6. A frame callback creates and destroys no buffer, texture, pipeline or bind group,
  and \<open>draw\<close> destroys nothing. The one destruction is in the resize handler of
  shadow mapping, which destroys the render depth texture and creates a new one. The
  resize handler creates no GPU object exactly in the demos whose \<open>draw\<close> allocates
  nothing (both lighting demos, canvas texture, sprite texture, deferred rendering,
  colour triangle); in the others (cube, two cubes, instanced cubes, image texture,
  multisample, shadow mapping) every resize creates new objects. No resize handler
  creates a pipeline, and the handlers of the colour input and of the \<open>numLights\<close>
  slider create and destroy nothing. The part of the image-texture \<open>draw\<close> that runs
  once the image has loaded creates the texture and its bind group and destroys
  nothing.
\<close>

theorem resource_lifecycle:
  "filter is_creation (emitted (run_callback M cb) w) = [] \<and>
   filter is_destruction (emitted (run_callback M cb) w) = [] \<and>
   filter is_destruction (emitted (draw d M) w) = [] \<and>
   filter is_destruction (emitted (onResize d M) w) =
     (if d = ShadowMapping then [DestroyTexture ''renderDepthTexture''] else []) \<and>
   filter is_creation (emitted (onResize ShadowMapping M) w) = [CreateTexture ''renderDepthTexture''] \<and>
   (filter is_creation (emitted (onResize d M) w) = []) =
     (d \<in> {BaseLighting, CanvasTexture, BaseLighting2, Deferred, SpriteTexture, ColorTriangle}) \<and>
   filter is_pipeline_creation (emitted (onResize d M) w) = [] \<and>
   filter (\<lambda>c. is_creation c \<or> is_destruction c) (emitted color_triangle_onColorInput w) = [] \<and>
   filter (\<lambda>c. is_creation c \<or> is_destruction c) (emitted deferred_onNumLightsChange w) = [] \<and>
   filter is_destruction (emitted (run_task M t) w) = [] \<and>
   filter is_creation (emitted (run_task M t) w) =
     [CreateTexture ''texture'', CreateBindGroup ''textureGroup''] \<and>
   filter is_destruction (emitted (image_settled M loaded) w) = []"
proof -
  have sm: "filter is_creation (emitted (onResize ShadowMapping M) w)
              = [CreateTexture ''renderDepthTexture'']"
    by (simp add: emitted_def onResize_defs draw_defs)
  have pc: "filter is_pipeline_creation (emitted (onResize d M) w) = []"
    by (cases d) (simp_all add: emitted_def onResize_defs draw_defs frame_defs Let_def)
  from callback_creates_nothing [of M cb w] draw_destroys_nothing [of d M w]
    onResize_destructions [of d M w] onResize_creations [of d M w] sm pc
    task_creations [of M t w] image_settled_destroys_nothing [of M loaded w]
  show ?thesis
    by (simp add: emitted_def color_triangle_onColorInput_def color_triangle_draw_def
        deferred_onNumLightsChange_def)
qed

text \<open>The claim C6 as stated, nothing destroyed or replaced after creation, fails for
  the resize handler of shadow mapping.\<close>

theorem shadowMapping_onResize_replaces_texture:
  "filter (\<lambda>c. is_creation c \<or> is_destruction c) (emitted shadowMapping_onResize initial_world)
     = [DestroyTexture ''renderDepthTexture'', CreateTexture ''renderDepthTexture'']"
  by (simp add: emitted_def onResize_defs draw_defs)

subsection \<open>Pipelines and the resize handler\<close>

lemma builds_pipeline_simps [simp]:
  "builds_pipeline (CreateShaderModule s) = True"
  "builds_pipeline (CreateRenderPipeline p) = True"
  "builds_pipeline (CreateComputePipeline p) = True"
  by (simp_all add: builds_pipeline_def)

lemma builds_pipeline_other [simp]:
  "\<not> is_pipeline_creation c \<Longrightarrow> \<not> is_shader_creation c \<Longrightarrow> builds_pipeline c = False"
  by (simp add: builds_pipeline_def)

lemma onResize_shape:
  "emitted (onResize d M) w =
     (if d = ShadowMapping
      then [DestroyTexture ''renderDepthTexture'', CreateTexture ''renderDepthTexture'',
            CreateView ''renderDepthTexture'']
      else [Configure])
     @ emitted (draw d M) w
     @ (if d = ShadowMapping then [WriteBuffer ''cameraProjectionBuffer'' 0]
        else if d = BaseLighting \<or> d = BaseLighting2 then [WriteBuffer ''projectionBuffer'' 0]
        else [])"
  by (cases d) (simp_all add: emitted_def onResize_defs draw_defs frame_defs Let_def)

lemma onResize_suspends:
  "suspended (onResize d M w) =
     suspended w @ (if d = ImageTexture then [ImageTextureDraw] else []) \<and>
   suspended (draw d M w) =
     suspended w @ (if d = ImageTexture then [ImageTextureDraw] else [])"
  by (cases d) (simp_all add: onResize_defs draw_defs frame_defs Let_def)

lemma onResize_configures:
  "(Configure \<in> set (emitted (onResize d M) w)) = (d \<noteq> ShadowMapping)"
  by (cases d) (simp_all add: emitted_def onResize_defs draw_defs frame_defs Let_def)

lemma initPipeline_count:
  "length (filter is_pipeline_creation
     (emitted (\<lambda>w. final_world (initPipeline d complete_env w)) w)) =
     (if d = Deferred then 4 else if d = ShadowMapping then 2 else 1)"
  by (cases d)
    (simp_all add: emitted_def initPipeline_defs deferred_initPipeline_def complete_env_def
      final_world_def)

lemma run_builds:
  "filter builds_pipeline (emitted (\<lambda>w. final_world (run d M e w)) w) =
     (if guards_pass d e \<and> device_resolves e
      then filter builds_pipeline (emitted (\<lambda>w. final_world (initPipeline d e w)) w)
      else [])"
  by (cases d)
    (auto simp add: emitted_def run_defs initWebGPU_cases guards_pass_def final_world_def
      initPipeline_defs deferred_initPipeline_def createResources_defs draw_defs frame_defs
      onResize_defs Let_def)

lemma run_pipelines:
  "filter is_pipeline_creation (calls (final_world (run d M complete_env w))) =
     filter is_pipeline_creation (calls w)
     @ filter is_pipeline_creation
         (emitted (\<lambda>w. final_world (initPipeline d complete_env w)) w)"
  by (cases d)
    (simp_all add: emitted_def run_defs initWebGPU_cases complete_env_def final_world_def
      initPipeline_defs deferred_initPipeline_def createResources_defs draw_defs frame_defs
      onResize_defs Let_def)

lemma run_registers_resize:
  "filter is_resize (listeners (final_world (run d M complete_env w))) =
     filter is_resize (listeners w) @ [Resize d]"
  by (cases d)
    (simp_all add: run_defs initWebGPU_cases complete_env_def final_world_def
      initPipeline_defs deferred_initPipeline_def createResources_defs draw_defs frame_defs
      onResize_defs Let_def)

lemma callback_builds_nothing:
  "filter builds_pipeline (emitted (run_callback M cb) w) = []"
  by (cases cb) (simp_all add: emitted_def frame_defs Let_def)

lemma draw_builds_nothing:
  "filter builds_pipeline (emitted (draw d M) w) = []"
  by (cases d) (simp_all add: emitted_def draw_defs frame_defs Let_def)

lemma onResize_builds_nothing:
  "filter builds_pipeline (emitted (onResize d M) w) = []"
  by (cases d) (simp_all add: emitted_def onResize_defs draw_defs frame_defs Let_def)

lemma handler_builds_nothing:
  "filter builds_pipeline (emitted (run_handler M h) w) = []"
proof (cases h)
  case (Resize d)
  then show ?thesis by (simp add: onResize_builds_nothing)
next
  case ColorInput
  then show ?thesis
    by (simp add: emitted_def color_triangle_onColorInput_def color_triangle_draw_def)
next
  case NumLightsChange
  then show ?thesis by (simp add: emitted_def deferred_onNumLightsChange_def)
qed

lemma task_builds_nothing:
  "filter builds_pipeline (emitted (run_task M t) w) = []"
  by (cases t) (simp add: emitted_def imageTexture_draw_loaded_def imageTexture_frame_def)

lemma image_settled_builds_nothing:
  "filter builds_pipeline (emitted (image_settled M loaded) w) = []"
  using task_builds_nothing
  by (cases "suspended w") (simp_all add: image_settled_emitted)

lemma builds_split:
  "filter builds_pipeline cs = [] \<Longrightarrow>
     filter is_pipeline_creation cs = [] \<and> filter is_shader_creation cs = []"
  by (auto simp add: filter_empty_conv builds_pipeline_def)

text \<open>
  C7. Every demo creates its pipelines and its shader modules in \<open>initPipeline\<close> (four
  pipelines in deferred rendering, two in shadow mapping, one elsewhere, when the
  browser resolves them): what \<open>run\<close> creates of them is what \<open>initPipeline\<close>
  creates when \<open>run\<close> reaches it (its guards pass and \<open>requestDevice\<close> resolves),
  and nothing otherwise. No \<open>draw\<close>, frame callback, handler (resize, colour
  input, \<open>numLights\<close>) or resumed \<open>draw\<close> of the image-texture demo creates a
  pipeline or a shader module. The resize handler, the one resize listener that \<open>run\<close>
  registers, calls \<open>draw\<close> again, after \<open>context.configure\<close> in every demo but
  shadow mapping, whose handler replaces the render depth texture instead and does not
  configure the context; the lighting demos and shadow mapping update the camera
  afterwards. In the image-texture demo the handler does not await \<open>draw\<close>: it
  leaves \<open>draw\<close> suspended at the load of the image.
\<close>

theorem pipelines_fixed:
  "length (filter is_pipeline_creation
     (emitted (\<lambda>w. final_world (initPipeline d complete_env w)) w)) =
     (if d = Deferred then 4 else if d = ShadowMapping then 2 else 1) \<and>
   filter builds_pipeline (emitted (\<lambda>w. final_world (run d M e w)) w) =
     (if guards_pass d e \<and> device_resolves e
      then filter builds_pipeline (emitted (\<lambda>w. final_world (initPipeline d e w)) w)
      else []) \<and>
   filter is_pipeline_creation (calls (final_world (run d M complete_env w))) =
     filter is_pipeline_creation (calls w)
     @ filter is_pipeline_creation
         (emitted (\<lambda>w. final_world (initPipeline d complete_env w)) w) \<and>
   filter builds_pipeline (emitted (draw d M) w) = [] \<and>
   filter builds_pipeline (emitted (run_callback M cb) w) = [] \<and>
   filter builds_pipeline (emitted (run_handler M h) w) = [] \<and>
   filter builds_pipeline (emitted (run_task M t) w) = [] \<and>
   filter builds_pipeline (emitted (image_settled M loaded) w) = [] \<and>
   filter is_pipeline_creation (emitted (run_callback M cb) w) = [] \<and>
   filter is_shader_creation (emitted (run_callback M cb) w) = [] \<and>
   filter is_pipeline_creation (emitted (onResize d M) w) = [] \<and>
   filter is_shader_creation (emitted (onResize d M) w) = [] \<and>
   emitted (onResize d M) w =
     (if d = ShadowMapping
      then [DestroyTexture ''renderDepthTexture'', CreateTexture ''renderDepthTexture'',
            CreateView ''renderDepthTexture'']
      else [Configure])
     @ emitted (draw d M) w
     @ (if d = ShadowMapping then [WriteBuffer ''cameraProjectionBuffer'' 0]
        else if d = BaseLighting \<or> d = BaseLighting2 then [WriteBuffer ''projectionBuffer'' 0]
        else []) \<and>
   suspended (onResize d M w) =
     suspended w @ (if d = ImageTexture then [ImageTextureDraw] else []) \<and>
   suspended (draw d M w) =
     suspended w @ (if d = ImageTexture then [ImageTextureDraw] else []) \<and>
   (Configure \<in> set (emitted (onResize d M) w)) = (d \<noteq> ShadowMapping) \<and>
   filter is_resize (listeners (final_world (run d M complete_env w))) =
     filter is_resize (listeners w) @ [Resize d] \<and>
   run_handler M (Resize d) w = onResize d M w"
  using initPipeline_count [of d w] run_builds [of d M e w] run_pipelines [of d M w]
    draw_builds_nothing [of d M w] callback_builds_nothing [of M cb w]
    handler_builds_nothing [of M h w] task_builds_nothing [of M t w]
    image_settled_builds_nothing [of M loaded w]
    builds_split [OF callback_builds_nothing [of M cb w]]
    builds_split [OF onResize_builds_nothing [of d M w]]
    onResize_shape [of d M w] onResize_suspends [of d M w] onResize_configures [of d M w]
    run_registers_resize [of d M w]
  by simp

text \<open>The claim C7 as stated, every resize handler reconfigures the canvas context,
  fails for shadow mapping.\<close>

theorem shadowMapping_onResize_no_configure:
  "Configure \<notin> set (emitted (onResize ShadowMapping sample_meshes) initial_world)"
  by (simp add: emitted_def onResize_defs draw_defs)

end
